theory Spec2Isabelle
  imports Main
begin

section \<open>Strings as the Go code sees them\<close>

text \<open>
  A Go string is modelled as a list of 8-bit characters. Letters are the ASCII letters;
  a byte outside ASCII is an opaque character that is neither a letter, a digit nor
  white space, and that upper-casing leaves alone.
\<close>

definition toUpperC :: "char \<Rightarrow> char" where
  "toUpperC c =
     (case map_of (zip ''abcdefghijklmnopqrstuvwxyz'' ''ABCDEFGHIJKLMNOPQRSTUVWXYZ'') c of
        Some u \<Rightarrow> u
      | None \<Rightarrow> c)"

definition ToUpper :: "string \<Rightarrow> string" where
  "ToUpper s = map toUpperC s"

text \<open>\<open>strings.EqualFold\<close>: equality under simple case folding.\<close>

definition EqualFold :: "string \<Rightarrow> string \<Rightarrow> bool" where
  "EqualFold a b = (ToUpper a = ToUpper b)"

text \<open>
  \<open>unicode.IsSpace\<close> on ASCII (used by \<open>strings.TrimSpace\<close> and \<open>strings.Fields\<close>):
  tab, line feed, vertical tab, form feed, carriage return, space.
\<close>

definition isSpace :: "char \<Rightarrow> bool" where
  "isSpace c = (c \<in> set [CHR 0x09, CHR 0x0A, CHR 0x0B, CHR 0x0C, CHR 0x0D, CHR 0x20])"

definition TrimSpace :: "string \<Rightarrow> string" where
  "TrimSpace s = rev (dropWhile isSpace (rev (dropWhile isSpace s)))"

text \<open>\<open>strings.Trim(s, cutset)\<close>: strips leading and trailing characters of the cutset.\<close>

definition Trim :: "string \<Rightarrow> string \<Rightarrow> string" where
  "Trim s cutset =
     rev (dropWhile (\<lambda>c. c \<in> set cutset) (rev (dropWhile (\<lambda>c. c \<in> set cutset) s)))"

fun HasPrefix :: "string \<Rightarrow> string \<Rightarrow> bool" where
  "HasPrefix s [] = True"
| "HasPrefix [] (p # ps) = False"
| "HasPrefix (c # cs) (p # ps) = (c = p \<and> HasPrefix cs ps)"

fun Contains :: "string \<Rightarrow> string \<Rightarrow> bool" where
  "Contains [] sub = (sub = [])"
| "Contains (c # cs) sub = (HasPrefix (c # cs) sub \<or> Contains cs sub)"

text \<open>\<open>strings.Fields\<close>: the maximal runs of non-space characters.\<close>

fun Fields_aux :: "string \<Rightarrow> string \<Rightarrow> string list" where
  "Fields_aux cur [] = (if cur = [] then [] else [cur])"
| "Fields_aux cur (c # cs) =
     (if isSpace c then (if cur = [] then Fields_aux [] cs else cur # Fields_aux [] cs)
      else Fields_aux (cur @ [c]) cs)"

definition Fields :: "string \<Rightarrow> string list" where
  "Fields s = Fields_aux [] s"

text \<open>\<open>strings.Split(s, sep)\<close> for a one-character separator: always at least one piece.\<close>

fun Split_aux :: "char \<Rightarrow> string \<Rightarrow> string \<Rightarrow> string list" where
  "Split_aux sep cur [] = [cur]"
| "Split_aux sep cur (c # cs) =
     (if c = sep then cur # Split_aux sep [] cs else Split_aux sep (cur @ [c]) cs)"

definition Split :: "string \<Rightarrow> char \<Rightarrow> string list" where
  "Split s sep = Split_aux sep [] s"

fun Join :: "string list \<Rightarrow> string \<Rightarrow> string" where
  "Join [] sep = []"
| "Join [x] sep = x"
| "Join (x # y # ys) sep = x @ sep @ Join (y # ys) sep"

text \<open>
  \<open>strings.Index\<close> and \<open>strings.LastIndex\<close> with a one-character needle (Go's
  \<open>IndexByte\<close> and \<open>LastIndexByte\<close>); \<open>None\<close> is Go's \<open>-1\<close>.
\<close>

fun IndexByte :: "string \<Rightarrow> char \<Rightarrow> nat option" where
  "IndexByte [] ch = None"
| "IndexByte (c # cs) ch = (if c = ch then Some 0 else map_option Suc (IndexByte cs ch))"

definition LastIndexByte :: "string \<Rightarrow> char \<Rightarrow> nat option" where
  "LastIndexByte s ch =
     (case IndexByte (rev s) ch of None \<Rightarrow> None | Some i \<Rightarrow> Some (length s - 1 - i))"

text \<open>\<open>strings.Replace(s, old, new, 1)\<close>: the first occurrence only.\<close>

fun ReplaceFirst :: "string \<Rightarrow> string \<Rightarrow> string \<Rightarrow> string" where
  "ReplaceFirst [] old new = (if old = [] then new else [])"
| "ReplaceFirst (c # cs) old new =
     (if HasPrefix (c # cs) old then new @ drop (length old) (c # cs)
      else c # ReplaceFirst cs old new)"

section \<open>Regular expressions with leftmost-first matching\<close>

text \<open>
  Go's \<open>regexp\<close> package returns the leftmost match and, among the matches that start
  there, the one a backtracking search finds first. The matcher below lists every way
  a pattern can match at the start of a string, in the order in which backtracking
  would try them; the first entry of the list is the match Go reports.
\<close>

datatype cclass =
    CSpace            \<comment> \<open>\<open>\s\<close>: tab, line feed, form feed, carriage return, space\<close>
  | CWord             \<comment> \<open>\<open>\w\<close>: \<open>[0-9A-Za-z_]\<close>\<close>
  | CDigit            \<comment> \<open>\<open>\d\<close>\<close>
  | CDot              \<comment> \<open>\<open>.\<close>: any character but a line feed\<close>
  | CAny              \<comment> \<open>\<open>[\s\S]\<close>\<close>
  | CLit char         \<comment> \<open>a literal character\<close>
  | CLitI char        \<comment> \<open>a literal character under \<open>(?i)\<close>\<close>
  | COneOf string     \<comment> \<open>\<open>[abc]\<close>\<close>
  | CNoneOf string    \<comment> \<open>\<open>[^abc]\<close>\<close>

datatype regex =
    Eps
  | Chr cclass
  | Eol                       \<comment> \<open>\<open>$\<close> without the multi-line flag\<close>
  | Seq regex regex
  | Alt regex regex
  | Opt regex                 \<comment> \<open>\<open>r?\<close>\<close>
  | Star regex                \<comment> \<open>\<open>r*\<close>, greedy\<close>
  | LazyStar regex            \<comment> \<open>\<open>r*?\<close>\<close>
  | Group nat regex           \<comment> \<open>the capturing group with this index\<close>

definition isWordChar :: "char \<Rightarrow> bool" where
  "isWordChar c =
     (c \<in> set ''abcdefghijklmnopqrstuvwxyzABCDEFGHIJKLMNOPQRSTUVWXYZ0123456789_'')"

definition isDigit :: "char \<Rightarrow> bool" where
  "isDigit c = (c \<in> set ''0123456789'')"

fun in_class :: "cclass \<Rightarrow> char \<Rightarrow> bool" where
  "in_class CSpace c = (c \<in> set [CHR 0x09, CHR 0x0A, CHR 0x0C, CHR 0x0D, CHR 0x20])"
| "in_class CWord c = isWordChar c"
| "in_class CDigit c = isDigit c"
| "in_class CDot c = (c \<noteq> CHR 0x0A)"
| "in_class CAny c = True"
| "in_class (CLit x) c = (c = x)"
| "in_class (CLitI x) c = (toUpperC c = toUpperC x)"
| "in_class (COneOf xs) c = (c \<in> set xs)"
| "in_class (CNoneOf xs) c = (c \<notin> set xs)"

type_synonym captures = "(nat \<times> string) list"

function rmatch :: "regex \<Rightarrow> string \<Rightarrow> (captures \<times> string) list" where
  "rmatch Eps s = [([], s)]"
| "rmatch (Chr k) s =
     (case s of [] \<Rightarrow> [] | c # cs \<Rightarrow> if in_class k c then [([], cs)] else [])"
| "rmatch Eol s = (if s = [] then [([], s)] else [])"
| "rmatch (Seq a b) s =
     concat (map (\<lambda>(c1, s1). map (\<lambda>(c2, s2). (c1 @ c2, s2)) (rmatch b s1)) (rmatch a s))"
| "rmatch (Alt a b) s = rmatch a s @ rmatch b s"
| "rmatch (Opt a) s = rmatch a s @ [([], s)]"
| "rmatch (Star a) s =
     concat (map (\<lambda>(c1, s1).
                if length s1 < length s
                then map (\<lambda>(c2, s2). (c1 @ c2, s2)) (rmatch (Star a) s1)
                else [])
             (rmatch a s))
     @ [([], s)]"
| "rmatch (LazyStar a) s =
     ([], s) #
     concat (map (\<lambda>(c1, s1).
                if length s1 < length s
                then map (\<lambda>(c2, s2). (c1 @ c2, s2)) (rmatch (LazyStar a) s1)
                else [])
             (rmatch a s))"
| "rmatch (Group n a) s =
     map (\<lambda>(c, s'). (c @ [(n, take (length s - length s') s)], s')) (rmatch a s)"
  by pat_completeness auto
termination
  by (relation "measures [\<lambda>(r, s). size r, \<lambda>(r, s). length s]") auto

declare rmatch.simps [simp del]

text \<open>The match a backtracking search finds first, if there is one.\<close>

definition first_match :: "regex \<Rightarrow> string \<Rightarrow> (captures \<times> string) option" where
  "first_match r s = (case rmatch r s of [] \<Rightarrow> None | x # _ \<Rightarrow> Some x)"

text \<open>The characters a pattern can take from the text.\<close>

fun consumes :: "regex \<Rightarrow> char \<Rightarrow> bool" where
  "consumes Eps x = False"
| "consumes (Chr k) x = in_class k x"
| "consumes Eol x = False"
| "consumes (Seq a b) x = (consumes a x \<or> consumes b x)"
| "consumes (Alt a b) x = (consumes a x \<or> consumes b x)"
| "consumes (Opt a) x = consumes a x"
| "consumes (Star a) x = consumes a x"
| "consumes (LazyStar a) x = consumes a x"
| "consumes (Group n a) x = consumes a x"

definition Plus :: "regex \<Rightarrow> regex" where
  "Plus r = Seq r (Star r)"

definition LazyPlus :: "regex \<Rightarrow> regex" where
  "LazyPlus r = Seq r (LazyStar r)"

definition seqs :: "regex list \<Rightarrow> regex" where
  "seqs rs = foldr Seq rs Eps"

definition alts :: "regex \<Rightarrow> regex list \<Rightarrow> regex" where
  "alts r rs = foldl Alt r rs"

text \<open>A literal word, case-sensitive and under \<open>(?i)\<close>.\<close>

definition lit :: "string \<Rightarrow> regex" where
  "lit w = seqs (map (Chr \<circ> CLit) w)"

definition liti :: "string \<Rightarrow> regex" where
  "liti w = seqs (map (Chr \<circ> CLitI) w)"

text \<open>
  A match found by an unanchored search: the text before the match, the matched text,
  the captures and the text after the match.
\<close>

record rmatch_result =
  m_before :: string
  m_text :: string
  m_caps :: captures
  m_after :: string

fun rfind_from :: "regex \<Rightarrow> string \<Rightarrow> string \<Rightarrow> rmatch_result option" where
  "rfind_from r pre s =
     (case rmatch r s of
        (caps, rest) # _ \<Rightarrow>
          Some \<lparr>m_before = pre, m_text = take (length s - length rest) s,
                m_caps = caps, m_after = rest\<rparr>
      | [] \<Rightarrow> (case s of [] \<Rightarrow> None | c # cs \<Rightarrow> rfind_from r (pre @ [c]) cs))"

declare rfind_from.simps [simp del]

definition rfind :: "regex \<Rightarrow> string \<Rightarrow> rmatch_result option" where
  "rfind r s = rfind_from r [] s"

text \<open>
  The text of a capturing group; a group that took no part in the match is the empty
  string, as in the slice \<open>FindStringSubmatch\<close> returns.
\<close>

definition group :: "rmatch_result \<Rightarrow> nat \<Rightarrow> string" where
  "group m n = (case map_of (rev (m_caps m)) n of Some g \<Rightarrow> g | None \<Rightarrow> [])"

text \<open>
  \<open>ReplaceAllString\<close> for a pattern that matches no empty string: matches are replaced
  from left to right and do not overlap.
\<close>

function ReplaceAll :: "regex \<Rightarrow> string \<Rightarrow> string \<Rightarrow> string" where
  "ReplaceAll r repl s =
     (case s of
        [] \<Rightarrow> []
      | c # cs \<Rightarrow>
          (case rmatch r s of
             (caps, rest) # _ \<Rightarrow>
               if length rest < length s then repl @ ReplaceAll r repl rest
               else c # ReplaceAll r repl cs
           | [] \<Rightarrow> c # ReplaceAll r repl cs))"
  by pat_completeness auto
termination
  by (relation "measure (\<lambda>(r, repl, s). length s)") auto

declare ReplaceAll.simps [simp del]


section \<open>The schema model\<close>

record Column =
  Column_Name :: string
  Column_Type :: string
  Column_Nullable :: bool
  Column_Default :: "string option"
  Column_IsPrimaryKey :: bool
  Column_IsUnique :: bool
  Column_IsIdentity :: bool
  Column_Comment :: string

record PrimaryKey =
  PrimaryKey_Name :: string
  PrimaryKey_Columns :: "string list"

record ForeignKey =
  ForeignKey_Name :: string
  ForeignKey_Columns :: "string list"
  ForeignKey_ReferencedTable :: string
  ForeignKey_ReferencedSchema :: string
  ForeignKey_ReferencedCols :: "string list"
  ForeignKey_OnDelete :: string
  ForeignKey_OnUpdate :: string

record Index =
  Index_Name :: string
  Index_Table :: string
  Index_Schema :: string
  Index_Columns :: "string list"
  Index_IsUnique :: bool
  Index_IsPrimary :: bool
  Index_Type :: string

record Constraint =
  Constraint_Name :: string
  Constraint_Type :: string
  Constraint_Columns :: "string list"
  Constraint_Expression :: string

record View =
  View_Name :: string
  View_Schema :: string
  View_Definition :: string

record Table =
  Table_Name :: string
  Table_Schema :: string
  Table_Columns :: "Column list"
  Table_PrimaryKey :: "PrimaryKey option"
  Table_ForeignKeys :: "ForeignKey list"
  Table_Indexes :: "Index list"
  Table_Constraints :: "Constraint list"

record Schema =
  Tables :: "Table list"
  Indexes :: "Index list"
  Views :: "View list"

section \<open>The dialect transformer\<close>

record Transformer =
  t_from :: string
  t_to :: string



definition mapIdentityType :: "Transformer \<Rightarrow> string \<Rightarrow> string" where
  "mapIdentityType t dataType =
     (let isBig = Contains dataType ''BIG'' in
      if t_to t = ''postgres'' then (if isBig then ''BIGSERIAL'' else ''SERIAL'')
      else if t_to t = ''mysql'' then
        (if isBig then ''BIGINT AUTO_INCREMENT'' else ''INT AUTO_INCREMENT'')
      else if t_to t = ''sqlserver'' then
        (if isBig then ''BIGINT IDENTITY(1,1)'' else ''INT IDENTITY(1,1)'')
      else dataType)"

text \<open>The length pattern \<^verbatim>\<open>\((\d+|MAX)\)\<close> of \<open>normalizeType\<close>.\<close>

definition lengthRe :: regex where
  "lengthRe = seqs [lit ''('', Group 1 (Alt (Plus (Chr CDigit)) (lit ''MAX'')), lit '')'']"

definition normalizeType :: "Transformer \<Rightarrow> string \<Rightarrow> string" where
  "normalizeType t dataType =
     (if dataType = ''INT'' \<or> dataType = ''INTEGER'' then ''INTEGER''
      else if dataType = ''BIGINT'' then ''BIGINT''
      else if dataType = ''SMALLINT'' \<or> dataType = ''TINYINT'' then ''SMALLINT''
      else if dataType = ''BOOLEAN'' \<or> dataType = ''BOOL'' \<or> dataType = ''BIT''
              \<or> dataType = ''TINYINT(1)'' then ''BOOLEAN''
      else if HasPrefix dataType ''VARCHAR'' \<or> HasPrefix dataType ''NVARCHAR''
              \<or> HasPrefix dataType ''CHARACTER VARYING'' then
        (case rfind lengthRe dataType of
           Some m \<Rightarrow> if group m 1 = ''MAX'' then ''TEXT'' else ''VARCHAR('' @ group m 1 @ '')''
         | None \<Rightarrow> ''VARCHAR(255)'')
      else if dataType = ''TEXT'' \<or> dataType = ''LONGTEXT'' \<or> dataType = ''MEDIUMTEXT''
              \<or> dataType = ''NVARCHAR(MAX)'' \<or> dataType = ''NTEXT'' then ''TEXT''
      else if dataType = ''CHAR'' \<or> HasPrefix dataType ''CHAR(''
              \<or> HasPrefix dataType ''NCHAR'' then dataType
      else if dataType = ''TIMESTAMP'' \<or> dataType = ''TIMESTAMP WITHOUT TIME ZONE''
              \<or> dataType = ''DATETIME'' \<or> dataType = ''DATETIME2'' then ''TIMESTAMP''
      else if dataType = ''TIMESTAMP WITH TIME ZONE'' \<or> dataType = ''TIMESTAMPTZ''
              \<or> dataType = ''DATETIMEOFFSET'' then ''TIMESTAMP_TZ''
      else if dataType = ''DATE'' then ''DATE''
      else if dataType = ''TIME'' \<or> dataType = ''TIME WITHOUT TIME ZONE'' then ''TIME''
      else if HasPrefix dataType ''DECIMAL'' \<or> HasPrefix dataType ''NUMERIC'' then dataType
      else if dataType = ''FLOAT'' \<or> dataType = ''REAL'' then ''REAL''
      else if dataType = ''DOUBLE'' \<or> dataType = ''DOUBLE PRECISION'' then ''DOUBLE''
      else if dataType = ''BYTEA'' \<or> dataType = ''BLOB'' \<or> dataType = ''LONGBLOB''
              \<or> dataType = ''VARBINARY(MAX)'' \<or> dataType = ''IMAGE'' then ''BINARY''
      else if dataType = ''JSON'' \<or> dataType = ''JSONB'' then ''JSON''
      else if dataType = ''UUID'' \<or> dataType = ''UNIQUEIDENTIFIER'' then ''UUID''
      else dataType)"

definition toPostgres :: "Transformer \<Rightarrow> string \<Rightarrow> string" where
  "toPostgres t normalized =
     (if normalized = ''BOOLEAN'' then ''BOOLEAN''
      else if normalized = ''TIMESTAMP'' then ''TIMESTAMP''
      else if normalized = ''TIMESTAMP_TZ'' then ''TIMESTAMP WITH TIME ZONE''
      else if normalized = ''BINARY'' then ''BYTEA''
      else if normalized = ''JSON'' then ''JSONB''
      else if normalized = ''UUID'' then ''UUID''
      else if normalized = ''DOUBLE'' then ''DOUBLE PRECISION''
      else normalized)"

definition toMySQL :: "Transformer \<Rightarrow> string \<Rightarrow> string" where
  "toMySQL t normalized =
     (if normalized = ''BOOLEAN'' then ''TINYINT(1)''
      else if normalized = ''TIMESTAMP'' then ''DATETIME''
      else if normalized = ''TIMESTAMP_TZ'' then ''DATETIME''
      else if normalized = ''BINARY'' then ''LONGBLOB''
      else if normalized = ''JSON'' then ''JSON''
      else if normalized = ''UUID'' then ''CHAR(36)''
      else if normalized = ''DOUBLE'' then ''DOUBLE''
      else if normalized = ''TEXT'' then ''LONGTEXT''
      else normalized)"

definition toSQLServer :: "Transformer \<Rightarrow> string \<Rightarrow> string" where
  "toSQLServer t normalized =
     (if normalized = ''BOOLEAN'' then ''BIT''
      else if normalized = ''TIMESTAMP'' then ''DATETIME2''
      else if normalized = ''TIMESTAMP_TZ'' then ''DATETIMEOFFSET''
      else if normalized = ''BINARY'' then ''VARBINARY(MAX)''
      else if normalized = ''JSON'' then ''NVARCHAR(MAX)''
      else if normalized = ''UUID'' then ''UNIQUEIDENTIFIER''
      else if normalized = ''DOUBLE'' then ''FLOAT''
      else if normalized = ''TEXT'' then ''NVARCHAR(MAX)''
      else if normalized = ''INTEGER'' then ''INT''
      else if HasPrefix normalized ''VARCHAR''
        then ReplaceFirst normalized ''VARCHAR'' ''NVARCHAR''
      else normalized)"

definition toTargetType :: "Transformer \<Rightarrow> string \<Rightarrow> string" where
  "toTargetType t normalized =
     (if t_to t = ''postgres'' then toPostgres t normalized
      else if t_to t = ''mysql'' then toMySQL t normalized
      else if t_to t = ''sqlserver'' then toSQLServer t normalized
      else normalized)"

definition mapDataType :: "Transformer \<Rightarrow> string \<Rightarrow> string" where
  "mapDataType t dataType = toTargetType t (normalizeType t dataType)"

text \<open>\<open>checkDataLoss\<close> returns the warning text, or the empty string for no warning.\<close>

definition checkDataLoss ::
  "Transformer \<Rightarrow> string \<Rightarrow> string \<Rightarrow> string \<Rightarrow> string \<Rightarrow> string" where
  "checkDataLoss t original mapped tableName colName =
     (if (original = ''JSONB'' \<or> original = ''JSON'') \<and> t_to t = ''sqlserver'' then
        tableName @ ''.'' @ colName
          @ '': JSON stored as NVARCHAR(MAX) - JSON functions available but no native type''
      else if (original = ''UUID'' \<or> original = ''UNIQUEIDENTIFIER'') \<and> t_to t = ''mysql'' then
        tableName @ ''.'' @ colName
          @ '': UUID stored as CHAR(36) - no native UUID type in MySQL''
      else if HasPrefix original ''TIMESTAMP'' \<and> Contains original ''TIME ZONE''
              \<and> t_to t = ''mysql'' then
        tableName @ ''.'' @ colName
          @ '': Timezone information will be lost - MySQL DATETIME has no timezone''
      else if original = ''DOUBLE PRECISION'' \<and> t_to t = ''sqlserver'' then
        tableName @ ''.'' @ colName
          @ '': DOUBLE PRECISION mapped to FLOAT - verify precision requirements''
      else [])"

definition transformType ::
  "Transformer \<Rightarrow> string \<Rightarrow> bool \<Rightarrow> string \<Rightarrow> string \<Rightarrow> string \<times> string list" where
  "transformType t dataType isIdentity tableName colName =
     (let upper = ToUpper dataType in
      if isIdentity then (mapIdentityType t upper, [])
      else
        (let mapped = mapDataType t upper;
             warning = checkDataLoss t upper mapped tableName colName
         in (mapped, if warning \<noteq> [] then [warning] else [])))"

text \<open>
  \<open>transformDefault\<close> always returns a non-nil pointer; the model returns the string it
  points to. In the timestamp and UUID families the result variable keeps Go's zero
  value, the empty string, when the target is none of the three dialects.
\<close>

definition transformDefault :: "Transformer \<Rightarrow> string \<Rightarrow> string" where
  "transformDefault t defaultVal =
     (let upper = ToUpper defaultVal in
      if upper = ''NOW()'' \<or> upper = ''CURRENT_TIMESTAMP'' \<or> upper = ''GETDATE()''
         \<or> upper = ''GETUTCDATE()'' then
        (if t_to t = ''postgres'' then ''NOW()''
         else if t_to t = ''mysql'' then ''CURRENT_TIMESTAMP''
         else if t_to t = ''sqlserver'' then ''GETDATE()''
         else [])
      else if upper = ''TRUE'' \<or> upper = ''FALSE'' then
        (if t_to t = ''mysql'' then (if upper = ''TRUE'' then ''1'' else ''0'')
         else if t_to t = ''sqlserver'' then (if upper = ''TRUE'' then ''1'' else ''0'')
         else defaultVal)
      else if upper = ''GEN_RANDOM_UUID()'' \<or> upper = ''UUID()'' \<or> upper = ''NEWID()'' then
        (if t_to t = ''postgres'' then ''gen_random_uuid()''
         else if t_to t = ''mysql'' then ''UUID()''
         else if t_to t = ''sqlserver'' then ''NEWID()''
         else [])
      else defaultVal)"

definition transformColumn :: "Transformer \<Rightarrow> Column \<Rightarrow> string \<Rightarrow> Column \<times> string list" where
  "transformColumn t col tableName =
     (let (ty, warnings) =
            transformType t (Column_Type col) (Column_IsIdentity col) tableName (Column_Name col)
      in (\<lparr>Column_Name = Column_Name col,
           Column_Type = ty,
           Column_Nullable = Column_Nullable col,
           Column_Default =
             (case Column_Default col of
                None \<Rightarrow> None
              | Some d \<Rightarrow> Some (transformDefault t d)),
           Column_IsPrimaryKey = Column_IsPrimaryKey col,
           Column_IsUnique = Column_IsUnique col,
           Column_IsIdentity = Column_IsIdentity col,
           Column_Comment = Column_Comment col\<rparr>,
          warnings))"

definition mapIndexType :: "Transformer \<Rightarrow> string \<Rightarrow> string" where
  "mapIndexType t indexType =
     (if indexType = [] then []
      else
        (let upper = ToUpper indexType in
         if t_to t = ''mysql'' then
           (if upper = ''GIN'' \<or> upper = ''GIST'' \<or> upper = ''BRIN'' then ''BTREE'' else upper)
         else if t_to t = ''sqlserver'' then
           (if upper = ''GIN'' \<or> upper = ''GIST'' \<or> upper = ''BRIN'' \<or> upper = ''HASH''
            then [] else [])
         else indexType))"

definition transformIndex :: "Transformer \<Rightarrow> Index \<Rightarrow> Index" where
  "transformIndex t idx =
     \<lparr>Index_Name = Index_Name idx,
      Index_Table = Index_Table idx,
      Index_Schema = Index_Schema idx,
      Index_Columns = Index_Columns idx,
      Index_IsUnique = Index_IsUnique idx,
      Index_IsPrimary = Index_IsPrimary idx,
      Index_Type = mapIndexType t (Index_Type idx)\<rparr>"

definition transformView :: "Transformer \<Rightarrow> View \<Rightarrow> View \<times> string list" where
  "transformView t view =
     (\<lparr>View_Name = View_Name view,
       View_Schema = View_Schema view,
       View_Definition = View_Definition view\<rparr>,
      if t_from t \<noteq> t_to t then
        [''View '' @ [CHR 0x27] @ View_Name view @ [CHR 0x27] @ '' may contain '' @ t_from t
           @ ''-specific SQL that requires manual review'']
      else [])"

definition transformTable :: "Transformer \<Rightarrow> Table \<Rightarrow> Table \<times> string list" where
  "transformTable t table =
     (let cols = map (\<lambda>col. transformColumn t col (Table_Name table)) (Table_Columns table)
      in (\<lparr>Table_Name = Table_Name table,
           Table_Schema = Table_Schema table,
           Table_Columns = map fst cols,
           Table_PrimaryKey = Table_PrimaryKey table,
           Table_ForeignKeys = Table_ForeignKeys table,
           Table_Indexes = map (transformIndex t) (Table_Indexes table),
           Table_Constraints = Table_Constraints table\<rparr>,
          concat (map snd cols)))"

definition Transform :: "Transformer \<Rightarrow> Schema \<Rightarrow> Schema \<times> string list" where
  "Transform t s =
     (let tables = map (transformTable t) (Tables s);
          views = map (transformView t) (Views s)
      in (\<lparr>Tables = map fst tables,
           Indexes = map (transformIndex t) (Indexes s),
           Views = map fst views\<rparr>,
          concat (map snd tables) @ concat (map snd views)))"

section \<open>What a transformation leaves alone\<close>

text \<open>
  The frame of a schema: the schema with every column type, column default and index
  method blanked out. Two schemas with the same frame have the same tables, columns,
  keys, constraints, indexes and views, and differ at most in those three fields.
\<close>

definition frame_Column :: "Column \<Rightarrow> Column" where
  "frame_Column c = c\<lparr>Column_Type := [], Column_Default := None\<rparr>"

definition frame_Index :: "Index \<Rightarrow> Index" where
  "frame_Index i = i\<lparr>Index_Type := []\<rparr>"

definition frame_Table :: "Table \<Rightarrow> Table" where
  "frame_Table tb =
     tb\<lparr>Table_Columns := map frame_Column (Table_Columns tb),
        Table_Indexes := map frame_Index (Table_Indexes tb)\<rparr>"

definition frame_Schema :: "Schema \<Rightarrow> Schema" where
  "frame_Schema s =
     \<lparr>Tables = map frame_Table (Tables s),
      Indexes = map frame_Index (Indexes s),
      Views = Views s\<rparr>"








section \<open>The differ\<close>

record ColumnChanges =
  ColumnChanges_Name :: string
  ColumnChanges_OldType :: string
  ColumnChanges_NewType :: string
  ColumnChanges_NullableChanged :: bool
  ColumnChanges_OldNullable :: bool
  ColumnChanges_NewNullable :: bool
  ColumnChanges_DefaultChanged :: bool
  ColumnChanges_OldDefault :: "string option"
  ColumnChanges_NewDefault :: "string option"

record ViewChanges =
  ViewChanges_Name :: string
  ViewChanges_OldDefinition :: string
  ViewChanges_NewDefinition :: string

record TableChanges =
  TableChanges_Name :: string
  TableChanges_AddedColumns :: "Column list"
  TableChanges_RemovedColumns :: "Column list"
  TableChanges_ModifiedColumns :: "ColumnChanges list"
  TableChanges_AddedIndexes :: "Index list"
  TableChanges_RemovedIndexes :: "Index list"
  TableChanges_AddedForeignKeys :: "ForeignKey list"
  TableChanges_RemovedForeignKeys :: "ForeignKey list"
  TableChanges_AddedConstraints :: "Constraint list"
  TableChanges_RemovedConstraints :: "Constraint list"
  TableChanges_PrimaryKeyChanged :: bool

record Changes =
  AddedTables :: "Table list"
  RemovedTables :: "Table list"
  ModifiedTables :: "TableChanges list"
  AddedIndexes :: "Index list"
  RemovedIndexes :: "Index list"
  AddedViews :: "View list"
  RemovedViews :: "View list"
  ModifiedViews :: "ViewChanges list"

record Differ =
  d_source :: Schema
  d_target :: Schema

text \<open>
  A Go map with string keys is an association list with one entry for each key. Storing
  under a key that is present replaces its value. Go leaves the order in which a
  \<open>range\<close> loop visits a map unspecified; the model takes it from a ranking of the keys,
  a parameter of every function that loops over a map, and what is proved holds for
  every ranking.
\<close>

fun map_put :: "string \<Rightarrow> 'a \<Rightarrow> (string \<times> 'a) list \<Rightarrow> (string \<times> 'a) list" where
  "map_put k v [] = [(k, v)]"
| "map_put k v (p # ps) = (if fst p = k then (k, v) # ps else p # map_put k v ps)"

definition make_map :: "('a \<Rightarrow> string) \<Rightarrow> 'a list \<Rightarrow> (string \<times> 'a) list" where
  "make_map key xs = foldl (\<lambda>m x. map_put (key x) x m) [] xs"

definition range_map :: "(string \<Rightarrow> nat) \<Rightarrow> (string \<times> 'a) list \<Rightarrow> (string \<times> 'a) list" where
  "range_map rank m = sort_key (\<lambda>p. rank (fst p)) m"

text \<open>The entries of \<open>a\<close> whose key is missing from \<open>b\<close>, in the order of the loop.\<close>

definition missing_from ::
  "(string \<Rightarrow> nat) \<Rightarrow> (string \<times> 'a) list \<Rightarrow> (string \<times> 'a) list \<Rightarrow> 'a list" where
  "missing_from rank a b =
     map snd (filter (\<lambda>p. map_of b (fst p) = None) (range_map rank a))"

definition sameDefault :: "string option \<Rightarrow> string option \<Rightarrow> bool" where
  "sameDefault a b =
     (case (a, b) of
        (None, None) \<Rightarrow> True
      | (None, Some y) \<Rightarrow> False
      | (Some x, None) \<Rightarrow> False
      | (Some x, Some y) \<Rightarrow> EqualFold x y)"

definition samePrimaryKey :: "Differ \<Rightarrow> PrimaryKey option \<Rightarrow> PrimaryKey option \<Rightarrow> bool" where
  "samePrimaryKey d source target =
     (case (source, target) of
        (None, None) \<Rightarrow> True
      | (None, Some y) \<Rightarrow> False
      | (Some x, None) \<Rightarrow> False
      | (Some x, Some y) \<Rightarrow>
          if length (PrimaryKey_Columns x) \<noteq> length (PrimaryKey_Columns y) then False
          else list_all (\<lambda>(a, b). a = b) (zip (PrimaryKey_Columns x) (PrimaryKey_Columns y)))"

definition compareColumn :: "Differ \<Rightarrow> Column \<Rightarrow> Column \<Rightarrow> ColumnChanges option" where
  "compareColumn d source target =
     (let changes = \<lparr>ColumnChanges_Name = Column_Name source,
                     ColumnChanges_OldType = [], ColumnChanges_NewType = [],
                     ColumnChanges_NullableChanged = False,
                     ColumnChanges_OldNullable = False, ColumnChanges_NewNullable = False,
                     ColumnChanges_DefaultChanged = False,
                     ColumnChanges_OldDefault = None, ColumnChanges_NewDefault = None\<rparr>;
          hasChanges = False;
          (changes, hasChanges) =
            (if \<not> EqualFold (Column_Type source) (Column_Type target)
             then (changes\<lparr>ColumnChanges_OldType := Column_Type source,
                           ColumnChanges_NewType := Column_Type target\<rparr>, True)
             else (changes, hasChanges));
          (changes, hasChanges) =
            (if Column_Nullable source \<noteq> Column_Nullable target
             then (changes\<lparr>ColumnChanges_NullableChanged := True,
                           ColumnChanges_OldNullable := Column_Nullable source,
                           ColumnChanges_NewNullable := Column_Nullable target\<rparr>, True)
             else (changes, hasChanges));
          (changes, hasChanges) =
            (if \<not> sameDefault (Column_Default source) (Column_Default target)
             then (changes\<lparr>ColumnChanges_DefaultChanged := True,
                           ColumnChanges_OldDefault := Column_Default source,
                           ColumnChanges_NewDefault := Column_Default target\<rparr>, True)
             else (changes, hasChanges))
      in if \<not> hasChanges then None else Some changes)"

text \<open>The map key of a foreign key: its name, or \<open><cols>_fk\<close> when it has none.\<close>

definition fk_key :: "ForeignKey \<Rightarrow> string" where
  "fk_key fk =
     (if ForeignKey_Name fk = [] then Join (ForeignKey_Columns fk) ''_'' @ ''_fk''
      else ForeignKey_Name fk)"

definition compareTable ::
  "(string \<Rightarrow> nat) \<Rightarrow> Differ \<Rightarrow> Table \<Rightarrow> Table \<Rightarrow> TableChanges option" where
  "compareTable rank d source target =
     (let sourceColMap = make_map Column_Name (Table_Columns source);
          targetColMap = make_map Column_Name (Table_Columns target);
          addedColumns = missing_from rank targetColMap sourceColMap;
          removedColumns = missing_from rank sourceColMap targetColMap;
          modifiedColumns =
            List.map_filter
              (\<lambda>(name, sourceCol).
                 case map_of targetColMap name of
                   None \<Rightarrow> None
                 | Some targetCol \<Rightarrow> compareColumn d sourceCol targetCol)
              (range_map rank sourceColMap);
          sourceIdxMap = make_map Index_Name (Table_Indexes source);
          targetIdxMap = make_map Index_Name (Table_Indexes target);
          addedIndexes = missing_from rank targetIdxMap sourceIdxMap;
          removedIndexes = missing_from rank sourceIdxMap targetIdxMap;
          sourceFKMap = make_map fk_key (Table_ForeignKeys source);
          targetFKMap = make_map fk_key (Table_ForeignKeys target);
          addedForeignKeys = missing_from rank targetFKMap sourceFKMap;
          removedForeignKeys = missing_from rank sourceFKMap targetFKMap;
          primaryKeyChanged =
            (\<not> samePrimaryKey d (Table_PrimaryKey source) (Table_PrimaryKey target));
          hasChanges =
            (addedColumns \<noteq> [] \<or> removedColumns \<noteq> [] \<or> modifiedColumns \<noteq> []
             \<or> addedIndexes \<noteq> [] \<or> removedIndexes \<noteq> []
             \<or> addedForeignKeys \<noteq> [] \<or> removedForeignKeys \<noteq> []
             \<or> primaryKeyChanged)
      in if \<not> hasChanges then None
         else Some \<lparr>TableChanges_Name = Table_Name source,
                    TableChanges_AddedColumns = addedColumns,
                    TableChanges_RemovedColumns = removedColumns,
                    TableChanges_ModifiedColumns = modifiedColumns,
                    TableChanges_AddedIndexes = addedIndexes,
                    TableChanges_RemovedIndexes = removedIndexes,
                    TableChanges_AddedForeignKeys = addedForeignKeys,
                    TableChanges_RemovedForeignKeys = removedForeignKeys,
                    TableChanges_AddedConstraints = [],
                    TableChanges_RemovedConstraints = [],
                    TableChanges_PrimaryKeyChanged = primaryKeyChanged\<rparr>)"

definition compareTables :: "(string \<Rightarrow> nat) \<Rightarrow> Differ \<Rightarrow> Changes \<Rightarrow> Changes" where
  "compareTables rank d changes =
     (let sourceMap = make_map Table_Name (Tables (d_source d));
          targetMap = make_map Table_Name (Tables (d_target d))
      in changes
           \<lparr>AddedTables := AddedTables changes @ missing_from rank targetMap sourceMap,
            RemovedTables := RemovedTables changes @ missing_from rank sourceMap targetMap,
            ModifiedTables := ModifiedTables changes @
              List.map_filter
                (\<lambda>(name, sourceTable).
                   case map_of targetMap name of
                     None \<Rightarrow> None
                   | Some targetTable \<Rightarrow> compareTable rank d sourceTable targetTable)
                (range_map rank sourceMap)\<rparr>)"

definition compareStandaloneIndexes :: "(string \<Rightarrow> nat) \<Rightarrow> Differ \<Rightarrow> Changes \<Rightarrow> Changes" where
  "compareStandaloneIndexes rank d changes =
     (let sourceMap = make_map Index_Name (Indexes (d_source d));
          targetMap = make_map Index_Name (Indexes (d_target d))
      in changes
           \<lparr>AddedIndexes := AddedIndexes changes @ missing_from rank targetMap sourceMap,
            RemovedIndexes := RemovedIndexes changes @ missing_from rank sourceMap targetMap\<rparr>)"

text \<open>The differ's own \<open>normalizeSQL\<close>, which only normalises white space and case.\<close>

definition diff_normalizeSQL :: "string \<Rightarrow> string" where
  "diff_normalizeSQL sql = ToUpper (Join (Fields (TrimSpace sql)) '' '')"

definition compareViews :: "(string \<Rightarrow> nat) \<Rightarrow> Differ \<Rightarrow> Changes \<Rightarrow> Changes" where
  "compareViews rank d changes =
     (let sourceMap = make_map View_Name (Views (d_source d));
          targetMap = make_map View_Name (Views (d_target d))
      in changes
           \<lparr>AddedViews := AddedViews changes @ missing_from rank targetMap sourceMap,
            RemovedViews := RemovedViews changes @ missing_from rank sourceMap targetMap,
            ModifiedViews := ModifiedViews changes @
              List.map_filter
                (\<lambda>(name, sourceView).
                   case map_of targetMap name of
                     None \<Rightarrow> None
                   | Some targetView \<Rightarrow>
                       if diff_normalizeSQL (View_Definition sourceView)
                            \<noteq> diff_normalizeSQL (View_Definition targetView)
                       then Some \<lparr>ViewChanges_Name = name,
                                  ViewChanges_OldDefinition = View_Definition sourceView,
                                  ViewChanges_NewDefinition = View_Definition targetView\<rparr>
                       else None)
                (range_map rank sourceMap)\<rparr>)"

definition Compare :: "(string \<Rightarrow> nat) \<Rightarrow> Differ \<Rightarrow> Changes" where
  "Compare rank d =
     compareViews rank d
       (compareStandaloneIndexes rank d
         (compareTables rank d
           \<lparr>AddedTables = [], RemovedTables = [], ModifiedTables = [],
            AddedIndexes = [], RemovedIndexes = [],
            AddedViews = [], RemovedViews = [], ModifiedViews = []\<rparr>))"

definition IsEmpty :: "Changes \<Rightarrow> bool" where
  "IsEmpty c =
     (length (AddedTables c) = 0 \<and> length (RemovedTables c) = 0
      \<and> length (ModifiedTables c) = 0 \<and> length (AddedIndexes c) = 0
      \<and> length (RemovedIndexes c) = 0 \<and> length (AddedViews c) = 0
      \<and> length (RemovedViews c) = 0 \<and> length (ModifiedViews c) = 0)"

text \<open>The package's entry point \<open>Diff(source, target)\<close>.\<close>

definition Diff :: "(string \<Rightarrow> nat) \<Rightarrow> Schema \<Rightarrow> Schema \<Rightarrow> Changes" where
  "Diff rank source target = Compare rank \<lparr>d_source = source, d_target = target\<rparr>"

section \<open>The DDL parser\<close>

text \<open>
  A Go function that returns \<open>(T, error)\<close> is a function into \<open>error + T\<close>. A run-time
  panic is an error value too, so that a caller that only skips returned errors passes
  a panic on.
\<close>

datatype error = Err string | Panic string

record Parser =
  p_dialect :: string

definition NewParser :: "string \<Rightarrow> Parser" where
  "NewParser dialect = \<lparr>p_dialect = dialect\<rparr>"

subsection \<open>The patterns\<close>

abbreviation sp :: regex where
  "sp \<equiv> Chr CSpace"

abbreviation word :: regex where
  "word \<equiv> Chr CWord"

text \<open>The class \<^verbatim>\<open>["']\<close>.\<close>

abbreviation quote :: regex where
  "quote \<equiv> Chr (COneOf [CHR 0x22, CHR 0x27])"

text \<open>The class \<^verbatim>\<open>[^)]\<close>.\<close>

abbreviation notClose :: regex where
  "notClose \<equiv> Chr (CNoneOf '')'')"

text \<open>
  \<^verbatim>\<open>(?i)CREATE\s+TABLE\s+(?:IF\s+NOT\s+EXISTS\s+)?(?:(\w+)\.)?["']?(\w+)["']?\<close>
\<close>

definition tableNameRe :: regex where
  "tableNameRe =
     seqs [liti ''CREATE'', Plus sp, liti ''TABLE'', Plus sp,
           Opt (seqs [liti ''IF'', Plus sp, liti ''NOT'', Plus sp, liti ''EXISTS'', Plus sp]),
           Opt (seqs [Group 1 (Plus word), lit ''.'']),
           Opt quote, Group 2 (Plus word), Opt quote]"

text \<open>
  \<^verbatim>\<open>(?i)DEFAULT\s+(.+?)(?:\s+(?:NOT\s+)?NULL|\s+PRIMARY|\s+UNIQUE|\s+CHECK|\s+REFERENCES|,|$)\<close>
\<close>

definition defaultRe :: regex where
  "defaultRe =
     seqs [liti ''DEFAULT'', Plus sp, Group 1 (LazyPlus (Chr CDot)),
           alts (seqs [Plus sp, Opt (seqs [liti ''NOT'', Plus sp]), liti ''NULL''])
                [seqs [Plus sp, liti ''PRIMARY''],
                 seqs [Plus sp, liti ''UNIQUE''],
                 seqs [Plus sp, liti ''CHECK''],
                 seqs [Plus sp, liti ''REFERENCES''],
                 lit '','',
                 Eol]]"

text \<open>\<^verbatim>\<open>\(([^)]+)\)\<close>\<close>

definition colsRe :: regex where
  "colsRe = seqs [lit ''('', Group 1 (Plus notClose), lit '')'']"

text \<open>\<^verbatim>\<open>(?i)FOREIGN\s+KEY\s*\(([^)]+)\)\<close>\<close>

definition localRe :: regex where
  "localRe =
     seqs [liti ''FOREIGN'', Plus sp, liti ''KEY'', Star sp,
           lit ''('', Group 1 (Plus notClose), lit '')'']"

text \<open>\<^verbatim>\<open>(?i)REFERENCES\s+(?:(\w+)\.)?["']?(\w+)["']?\s*\(([^)]+)\)\<close>\<close>

definition refRe :: regex where
  "refRe =
     seqs [liti ''REFERENCES'', Plus sp,
           Opt (seqs [Group 1 (Plus word), lit ''.'']),
           Opt quote, Group 2 (Plus word), Opt quote, Star sp,
           lit ''('', Group 3 (Plus notClose), lit '')'']"

text \<open>\<^verbatim>\<open>(?i)CHECK\s*\((.+)\)\<close>\<close>

definition checkRe :: regex where
  "checkRe = seqs [liti ''CHECK'', Star sp, lit ''('', Group 1 (Plus (Chr CDot)), lit '')'']"

text \<open>\<^verbatim>\<open>(?i)CONSTRAINT\s+["']?(\w+)["']?\<close>\<close>

definition constraintNameRe :: regex where
  "constraintNameRe =
     seqs [liti ''CONSTRAINT'', Plus sp, Opt quote, Group 1 (Plus word), Opt quote]"

text \<open>
  \<^verbatim>\<open>(?i)CREATE\s+(?:UNIQUE\s+)?INDEX\s+(?:IF\s+NOT\s+EXISTS\s+)?(?:CONCURRENTLY\s+)?["']?(\w+)["']?\<close>
\<close>

definition indexNameRe :: regex where
  "indexNameRe =
     seqs [liti ''CREATE'', Plus sp, Opt (seqs [liti ''UNIQUE'', Plus sp]),
           liti ''INDEX'', Plus sp,
           Opt (seqs [liti ''IF'', Plus sp, liti ''NOT'', Plus sp, liti ''EXISTS'', Plus sp]),
           Opt (seqs [liti ''CONCURRENTLY'', Plus sp]),
           Opt quote, Group 1 (Plus word), Opt quote]"

text \<open>\<^verbatim>\<open>(?i)ON\s+(?:(\w+)\.)?["']?(\w+)["']?\<close>\<close>

definition indexTableRe :: regex where
  "indexTableRe =
     seqs [liti ''ON'', Plus sp, Opt (seqs [Group 1 (Plus word), lit ''.'']),
           Opt quote, Group 2 (Plus word), Opt quote]"

text \<open>\<^verbatim>\<open>(?i)\s+(ASC|DESC)$\<close>\<close>

definition ascDescRe :: regex where
  "ascDescRe = seqs [Plus sp, Group 1 (Alt (liti ''ASC'') (liti ''DESC'')), Eol]"

text \<open>\<^verbatim>\<open>(?i)CREATE\s+(?:OR\s+REPLACE\s+)?VIEW\s+(?:(\w+)\.)?["']?(\w+)["']?\<close>\<close>

definition viewNameRe :: regex where
  "viewNameRe =
     seqs [liti ''CREATE'', Plus sp, Opt (seqs [liti ''OR'', Plus sp, liti ''REPLACE'', Plus sp]),
           liti ''VIEW'', Plus sp, Opt (seqs [Group 1 (Plus word), lit ''.'']),
           Opt quote, Group 2 (Plus word), Opt quote]"

text \<open>\<^verbatim>\<open>(?i)\sAS\s\<close>\<close>

definition asRe :: regex where
  "asRe = seqs [sp, liti ''AS'', sp]"

text \<open>\<^verbatim>\<open>--[^\n]*\<close>, \<^verbatim>\<open>/\*[\s\S]*?\*/\<close> and \<^verbatim>\<open>\s+\<close>\<close>

definition lineCommentRe :: regex where
  "lineCommentRe = seqs [lit ''--'', Star (Chr (CNoneOf [CHR 0x0A]))]"

definition blockCommentRe :: regex where
  "blockCommentRe = seqs [lit ''/*'', LazyStar (Chr CAny), lit ''*/'']"

definition spacesRe :: regex where
  "spacesRe = Plus sp"

subsection \<open>Helper functions\<close>

definition normalizeSQL :: "string \<Rightarrow> string" where
  "normalizeSQL sql =
     TrimSpace (ReplaceAll spacesRe '' ''
       (ReplaceAll blockCommentRe [] (ReplaceAll lineCommentRe [] sql)))"

record split_state =
  statements :: "string list"
  current :: string
  inString :: bool
  stringChar :: char

definition split_step :: "split_state \<Rightarrow> char \<Rightarrow> split_state" where
  "split_step st ch =
     (let st1 =
            (if \<not> inString st \<and> (ch = CHR 0x27 \<or> ch = CHR 0x22)
             then st\<lparr>inString := True, stringChar := ch\<rparr>
             else if inString st \<and> ch = stringChar st
             then st\<lparr>inString := False\<rparr>
             else st)
      in if ch = CHR '';'' \<and> \<not> inString st1
         then st1\<lparr>statements := statements st1 @ [current st1], current := []\<rparr>
         else st1\<lparr>current := current st1 @ [ch]\<rparr>)"

definition split_init :: split_state where
  "split_init = \<lparr>statements = [], current = [], inString = False, stringChar = CHR 0x00\<rparr>"

text \<open>After the loop, the text left in \<open>current\<close> is one more statement.\<close>

definition split_finish :: "split_state \<Rightarrow> string list" where
  "split_finish st =
     (if length (current st) > 0 then statements st @ [current st] else statements st)"

definition splitStatements :: "string \<Rightarrow> string list" where
  "splitStatements sql = split_finish (foldl split_step split_init sql)"

record defs_state =
  d_defs :: "string list"
  d_current :: string
  d_parenDepth :: int

definition defs_step :: "defs_state \<Rightarrow> char \<Rightarrow> defs_state" where
  "defs_step st ch =
     (if ch = CHR ''('' then
        st\<lparr>d_parenDepth := d_parenDepth st + 1, d_current := d_current st @ [ch]\<rparr>
      else if ch = CHR '')'' then
        st\<lparr>d_parenDepth := d_parenDepth st - 1, d_current := d_current st @ [ch]\<rparr>
      else if ch = CHR '','' then
        (if d_parenDepth st = 0
         then st\<lparr>d_defs := d_defs st @ [d_current st], d_current := []\<rparr>
         else st\<lparr>d_current := d_current st @ [ch]\<rparr>)
      else st\<lparr>d_current := d_current st @ [ch]\<rparr>)"

definition splitColumnDefs :: "string \<Rightarrow> string list" where
  "splitColumnDefs body =
     (let st = foldl defs_step \<lparr>d_defs = [], d_current = [], d_parenDepth = 0\<rparr> body
      in if length (d_current st) > 0 then d_defs st @ [d_current st] else d_defs st)"

text \<open>The cutset of quote characters the parser strips from names.\<close>

definition quoteChars :: string where
  "quoteChars = [CHR 0x22, CHR 0x27, CHR 0x60, CHR 0x60]"

text \<open>The columns of a parenthesised list: the pieces between commas, stripped.\<close>

definition listColumns :: "string \<Rightarrow> string list" where
  "listColumns s = map (\<lambda>c. TrimSpace (Trim c quoteChars)) (Split s (CHR '',''))"

subsection \<open>Members of a table body\<close>

definition parseColumnDef :: "Parser \<Rightarrow> string \<Rightarrow> Column option" where
  "parseColumnDef p def =
     (case Fields def of
        name # ty # rest \<Rightarrow>
          (let col = \<lparr>Column_Name = Trim name quoteChars,
                      Column_Type = ty,
                      Column_Nullable = True,
                      Column_Default = None,
                      Column_IsPrimaryKey = False,
                      Column_IsUnique = False,
                      Column_IsIdentity = False,
                      Column_Comment = []\<rparr>;
               upper = ToUpper def;
               col = (if Contains upper ''NOT NULL'' then col\<lparr>Column_Nullable := False\<rparr>
                      else col);
               col = (if Contains upper ''PRIMARY KEY''
                      then col\<lparr>Column_IsPrimaryKey := True, Column_Nullable := False\<rparr>
                      else col);
               col = (if Contains upper ''UNIQUE'' then col\<lparr>Column_IsUnique := True\<rparr>
                      else col);
               col = (if Contains upper ''SERIAL'' \<or> Contains upper ''AUTO_INCREMENT''
                         \<or> Contains upper ''IDENTITY'' \<or> Contains upper ''AUTOINCREMENT''
                      then col\<lparr>Column_IsIdentity := True\<rparr>
                      else col);
               col = (case rfind defaultRe def of
                        Some m \<Rightarrow> col\<lparr>Column_Default := Some (TrimSpace (group m 1))\<rparr>
                      | None \<Rightarrow> col)
           in Some col)
      | _ \<Rightarrow> None)"

definition parsePrimaryKeyConstraint :: "Parser \<Rightarrow> string \<Rightarrow> PrimaryKey" where
  "parsePrimaryKeyConstraint p def =
     \<lparr>PrimaryKey_Name = [],
      PrimaryKey_Columns =
        (case rfind colsRe def of
           Some m \<Rightarrow> listColumns (group m 1)
         | None \<Rightarrow> [])\<rparr>"

text \<open>
  The three functions below return a pointer that is never nil; their callers test it
  all the same, and the model keeps the test.
\<close>

definition parseForeignKeyConstraint :: "Parser \<Rightarrow> string \<Rightarrow> ForeignKey option" where
  "parseForeignKeyConstraint p def =
     (let fk = \<lparr>ForeignKey_Name = [],
                ForeignKey_Columns = [],
                ForeignKey_ReferencedTable = [],
                ForeignKey_ReferencedSchema = [],
                ForeignKey_ReferencedCols = [],
                ForeignKey_OnDelete = [],
                ForeignKey_OnUpdate = []\<rparr>;
          fk = (case rfind localRe def of
                  Some m \<Rightarrow> fk\<lparr>ForeignKey_Columns := listColumns (group m 1)\<rparr>
                | None \<Rightarrow> fk);
          fk = (case rfind refRe def of
                  Some m \<Rightarrow> fk\<lparr>ForeignKey_ReferencedSchema := group m 1,
                                ForeignKey_ReferencedTable := group m 2,
                                ForeignKey_ReferencedCols := listColumns (group m 3)\<rparr>
                | None \<Rightarrow> fk);
          fk = (if Contains (ToUpper def) ''ON DELETE CASCADE''
                then fk\<lparr>ForeignKey_OnDelete := ''CASCADE''\<rparr>
                else if Contains (ToUpper def) ''ON DELETE SET NULL''
                then fk\<lparr>ForeignKey_OnDelete := ''SET NULL''\<rparr>
                else fk);
          fk = (if Contains (ToUpper def) ''ON UPDATE CASCADE''
                then fk\<lparr>ForeignKey_OnUpdate := ''CASCADE''\<rparr>
                else fk)
      in Some fk)"

definition parseUniqueConstraint :: "Parser \<Rightarrow> string \<Rightarrow> Constraint option" where
  "parseUniqueConstraint p def =
     Some \<lparr>Constraint_Name = [],
           Constraint_Type = ''UNIQUE'',
           Constraint_Columns =
             (case rfind colsRe def of
                Some m \<Rightarrow> listColumns (group m 1)
              | None \<Rightarrow> []),
           Constraint_Expression = []\<rparr>"

definition parseCheckConstraint :: "Parser \<Rightarrow> string \<Rightarrow> Constraint option" where
  "parseCheckConstraint p def =
     Some \<lparr>Constraint_Name = [],
           Constraint_Type = ''CHECK'',
           Constraint_Columns = [],
           Constraint_Expression =
             (case rfind checkRe def of
                Some m \<Rightarrow> group m 1
              | None \<Rightarrow> [])\<rparr>"

definition parseNamedConstraint :: "Parser \<Rightarrow> string \<Rightarrow> Table \<Rightarrow> Table" where
  "parseNamedConstraint p def table =
     (let upper = ToUpper def;
          name = (case rfind constraintNameRe def of Some m \<Rightarrow> group m 1 | None \<Rightarrow> [])
      in if Contains upper ''PRIMARY KEY'' then
           table\<lparr>Table_PrimaryKey :=
                   Some ((parsePrimaryKeyConstraint p def)\<lparr>PrimaryKey_Name := name\<rparr>)\<rparr>
         else if Contains upper ''FOREIGN KEY'' then
           (case parseForeignKeyConstraint p def of
              Some fk \<Rightarrow>
                table\<lparr>Table_ForeignKeys :=
                        Table_ForeignKeys table @ [fk\<lparr>ForeignKey_Name := name\<rparr>]\<rparr>
            | None \<Rightarrow> table)
         else if Contains upper ''UNIQUE'' then
           (case parseUniqueConstraint p def of
              Some constraint \<Rightarrow>
                table\<lparr>Table_Constraints :=
                        Table_Constraints table @ [constraint\<lparr>Constraint_Name := name\<rparr>]\<rparr>
            | None \<Rightarrow> table)
         else if Contains upper ''CHECK'' then
           (case parseCheckConstraint p def of
              Some constraint \<Rightarrow>
                table\<lparr>Table_Constraints :=
                        Table_Constraints table @ [constraint\<lparr>Constraint_Name := name\<rparr>]\<rparr>
            | None \<Rightarrow> table)
         else table)"

text \<open>One round of the loop over the member definitions of a table body.\<close>

definition table_member :: "Parser \<Rightarrow> Table \<Rightarrow> string \<Rightarrow> Table" where
  "table_member p table def0 =
     (let def = TrimSpace def0 in
      if def = [] then table
      else
        (let upper = ToUpper def in
         if HasPrefix upper ''PRIMARY KEY'' then
           table\<lparr>Table_PrimaryKey := Some (parsePrimaryKeyConstraint p def)\<rparr>
         else if HasPrefix upper ''FOREIGN KEY'' then
           (case parseForeignKeyConstraint p def of
              Some fk \<Rightarrow> table\<lparr>Table_ForeignKeys := Table_ForeignKeys table @ [fk]\<rparr>
            | None \<Rightarrow> table)
         else if HasPrefix upper ''UNIQUE'' then
           (case parseUniqueConstraint p def of
              Some constraint \<Rightarrow>
                table\<lparr>Table_Constraints := Table_Constraints table @ [constraint]\<rparr>
            | None \<Rightarrow> table)
         else if HasPrefix upper ''CHECK'' then
           (case parseCheckConstraint p def of
              Some constraint \<Rightarrow>
                table\<lparr>Table_Constraints := Table_Constraints table @ [constraint]\<rparr>
            | None \<Rightarrow> table)
         else if HasPrefix upper ''CONSTRAINT'' then parseNamedConstraint p def table
         else
           (case parseColumnDef p def of
              Some col \<Rightarrow> table\<lparr>Table_Columns := Table_Columns table @ [col]\<rparr>
            | None \<Rightarrow> table)))"

subsection \<open>Statements\<close>

text \<open>
  The slice \<open>stmt[parenStart+1 : parenEnd]\<close> panics when the last closing parenthesis
  stands before the first opening one.
\<close>

definition parseCreateTable :: "Parser \<Rightarrow> string \<Rightarrow> error + Table" where
  "parseCreateTable p stmt =
     (let table = \<lparr>Table_Name = [], Table_Schema = [], Table_Columns = [],
                   Table_PrimaryKey = None, Table_ForeignKeys = [],
                   Table_Indexes = [], Table_Constraints = []\<rparr>;
          table = (case rfind tableNameRe stmt of
                     Some m \<Rightarrow> table\<lparr>Table_Schema := group m 1, Table_Name := group m 2\<rparr>
                   | None \<Rightarrow> table)
      in case (IndexByte stmt (CHR ''(''), LastIndexByte stmt (CHR '')'')) of
           (Some parenStart, Some parenEnd) \<Rightarrow>
             if parenStart + 1 > parenEnd then Inl (Panic ''slice bounds out of range'')
             else
               (let body = take (parenEnd - (parenStart + 1)) (drop (parenStart + 1) stmt);
                    definitions = splitColumnDefs body
                in Inr (foldl (table_member p) table definitions))
         | _ \<Rightarrow> Inr table)"

definition parseCreateIndex :: "Parser \<Rightarrow> string \<Rightarrow> error + Index" where
  "parseCreateIndex p stmt =
     (let upper = ToUpper stmt;
          idx = \<lparr>Index_Name = [], Index_Table = [], Index_Schema = [], Index_Columns = [],
                 Index_IsUnique = Contains upper ''UNIQUE'', Index_IsPrimary = False,
                 Index_Type = []\<rparr>;
          idx = (case rfind indexNameRe stmt of
                   Some m \<Rightarrow> idx\<lparr>Index_Name := group m 1\<rparr>
                 | None \<Rightarrow> idx);
          idx = (case rfind indexTableRe stmt of
                   Some m \<Rightarrow> idx\<lparr>Index_Schema := group m 1, Index_Table := group m 2\<rparr>
                 | None \<Rightarrow> idx);
          idx = (case rfind colsRe stmt of
                   Some m \<Rightarrow>
                     idx\<lparr>Index_Columns :=
                           map (\<lambda>c. Trim (ReplaceAll ascDescRe [] (TrimSpace c)) quoteChars)
                               (Split (group m 1) (CHR '',''))\<rparr>
                 | None \<Rightarrow> idx)
      in Inr idx)"

definition parseCreateView :: "Parser \<Rightarrow> string \<Rightarrow> error + View" where
  "parseCreateView p stmt =
     (let view = \<lparr>View_Name = [], View_Schema = [], View_Definition = []\<rparr>;
          view = (case rfind viewNameRe stmt of
                    Some m \<Rightarrow> view\<lparr>View_Schema := group m 1, View_Name := group m 2\<rparr>
                  | None \<Rightarrow> view);
          view = (case rfind asRe stmt of
                    Some m \<Rightarrow> view\<lparr>View_Definition := TrimSpace (m_after m)\<rparr>
                  | None \<Rightarrow> view)
      in Inr view)"

text \<open>
  The loop of \<open>Parse\<close> over the statements. A returned error skips the statement; a
  panic ends the parse.
\<close>

fun parse_statements :: "Parser \<Rightarrow> Schema \<Rightarrow> string list \<Rightarrow> error + Schema" where
  "parse_statements p schema [] = Inr schema"
| "parse_statements p schema (stmt0 # rest) =
     (let stmt = TrimSpace stmt0 in
      if stmt = [] then parse_statements p schema rest
      else
        (let upper = ToUpper stmt in
         if HasPrefix upper ''CREATE TABLE'' then
           (case parseCreateTable p stmt of
              Inl (Panic msg) \<Rightarrow> Inl (Panic msg)
            | Inl (Err msg) \<Rightarrow> parse_statements p schema rest
            | Inr table \<Rightarrow>
                parse_statements p (schema\<lparr>Tables := Tables schema @ [table]\<rparr>) rest)
         else if HasPrefix upper ''CREATE INDEX'' \<or> HasPrefix upper ''CREATE UNIQUE INDEX'' then
           (case parseCreateIndex p stmt of
              Inl (Panic msg) \<Rightarrow> Inl (Panic msg)
            | Inl (Err msg) \<Rightarrow> parse_statements p schema rest
            | Inr idx \<Rightarrow>
                parse_statements p (schema\<lparr>Indexes := Indexes schema @ [idx]\<rparr>) rest)
         else if HasPrefix upper ''CREATE VIEW'' \<or> HasPrefix upper ''CREATE OR REPLACE VIEW'' then
           (case parseCreateView p stmt of
              Inl (Panic msg) \<Rightarrow> Inl (Panic msg)
            | Inl (Err msg) \<Rightarrow> parse_statements p schema rest
            | Inr view \<Rightarrow>
                parse_statements p (schema\<lparr>Views := Views schema @ [view]\<rparr>) rest)
         else parse_statements p schema rest))"

definition Parse :: "Parser \<Rightarrow> string \<Rightarrow> error + Schema" where
  "Parse p sql =
     parse_statements p \<lparr>Tables = [], Indexes = [], Views = []\<rparr>
       (splitStatements (normalizeSQL sql))"

subsection \<open>The statements \<open>Parse\<close> looks at\<close>






text \<open>
  The first opening parenthesis of a statement stands before its last closing one, or
  one of the two is missing: the statements on which the slice of \<open>parseCreateTable\<close>
  is within bounds.
\<close>

definition parens_in_order :: "string \<Rightarrow> bool" where
  "parens_in_order stmt =
     (case (IndexByte stmt (CHR ''(''), LastIndexByte stmt (CHR '')'')) of
        (Some parenStart, Some parenEnd) \<Rightarrow> parenStart < parenEnd
      | _ \<Rightarrow> True)"

text \<open>A foreign key with as many referenced columns as local ones.\<close>

definition fk_same_arity :: "ForeignKey \<Rightarrow> bool" where
  "fk_same_arity fk = (length (ForeignKey_Columns fk) = length (ForeignKey_ReferencedCols fk))"

definition schema_fks_same_arity :: "Schema \<Rightarrow> bool" where
  "schema_fks_same_arity s = list_all (list_all fk_same_arity \<circ> Table_ForeignKeys) (Tables s)"

text \<open>
  The text of a foreign-key member \<open>FOREIGN KEY (L) REFERENCES T(R)\<close> followed by
  \<open>rest\<close>, and the members of this form the two regular expressions read as written:
  \<open>L\<close> holds no parenthesis, \<open>T\<close> is a word, \<open>R\<close> holds no closing parenthesis.
\<close>

definition fk_text :: "string \<Rightarrow> string \<Rightarrow> string \<Rightarrow> string \<Rightarrow> string" where
  "fk_text L T R rest = ''FOREIGN KEY ('' @ L @ '') REFERENCES '' @ T @ ''('' @ R @ '')'' @ rest"

definition fk_text_ok :: "string \<Rightarrow> string \<Rightarrow> string \<Rightarrow> bool" where
  "fk_text_ok L T R =
     (L \<noteq> [] \<and> T \<noteq> [] \<and> R \<noteq> []
      \<and> list_all (\<lambda>x. x \<noteq> CHR ''('' \<and> x \<noteq> CHR '')'') L
      \<and> list_all isWordChar T
      \<and> list_all (\<lambda>x. x \<noteq> CHR '')'') R)"

section \<open>Properties of the transformer\<close>















lemma transformView_fst: "fst (transformView t v) = v"
  by (simp add: transformView_def)


lemma frame_transformColumn: "frame_Column (fst (transformColumn t c tn)) = frame_Column c"
  by (simp add: transformColumn_def frame_Column_def split: prod.splits)

lemma frame_transformIndex: "frame_Index (transformIndex t i) = frame_Index i"
  by (simp add: transformIndex_def frame_Index_def)

lemma frame_transformTable: "frame_Table (fst (transformTable t tb)) = frame_Table tb"
  by (simp add: transformTable_def frame_Table_def Let_def frame_transformColumn
      frame_transformIndex comp_def)

lemma frame_Transform: "frame_Schema (fst (Transform t s)) = frame_Schema s"
  by (simp add: Transform_def frame_Schema_def Let_def frame_transformTable
      frame_transformIndex transformView_fst comp_def)



text \<open>
  Claim C7, as amended. The canonical type \<open>TIMESTAMP_TZ\<close> is projected to
  \<open>TIMESTAMP WITH TIME ZONE\<close> for postgres, to \<open>DATETIME\<close> for mysql and to
  \<open>DATETIMEOFFSET\<close> for sqlserver, whatever the source dialect.
\<close>

theorem C7_timestamp_tz_projection:
  "toTargetType \<lparr>t_from = f, t_to = ''postgres''\<rparr> ''TIMESTAMP_TZ'' = ''TIMESTAMP WITH TIME ZONE''
   \<and> toTargetType \<lparr>t_from = f, t_to = ''mysql''\<rparr> ''TIMESTAMP_TZ'' = ''DATETIME''
   \<and> toTargetType \<lparr>t_from = f, t_to = ''sqlserver''\<rparr> ''TIMESTAMP_TZ'' = ''DATETIMEOFFSET''"
  by (simp add: toTargetType_def toMySQL_def toPostgres_def toSQLServer_def)

text \<open>
  Claim C7 as stated fails for mysql: the projection of \<open>TIMESTAMP_TZ\<close> is not
  \<open>TIMESTAMP\<close>.
\<close>

theorem C7_mysql_counterexample:
  "toTargetType \<lparr>t_from = ''postgres'', t_to = ''mysql''\<rparr> ''TIMESTAMP_TZ'' \<noteq> ''TIMESTAMP''"
  by (simp add: toTargetType_def toMySQL_def)

text \<open>
  Claim C10. A transformation between any two dialect names returns a schema with the
  frame of its input: as many tables, standalone indexes and views; every table with its
  name, namespace, primary key, foreign keys and constraints; every column with its
  name, nullable flag, primary-key, unique and identity flags and comment; every index
  with its name, table, namespace, columns and unique and primary flags; every view
  unchanged. Only column types, column defaults and index methods can differ.
\<close>

theorem C10_transform_frame:
  "frame_Schema (fst (Transform t s)) = frame_Schema s
   \<and> length (Tables (fst (Transform t s))) = length (Tables s)
   \<and> length (Indexes (fst (Transform t s))) = length (Indexes s)
   \<and> length (Views (fst (Transform t s))) = length (Views s)
   \<and> Views (fst (Transform t s)) = Views s"
  by (simp add: frame_Transform) (simp add: Transform_def transformView_fst comp_def)








section \<open>Properties of the differ\<close>

lemma map_put_keys: "fst ` set (map_put k v m) = insert k (fst ` set m)"
  by (induction m) auto

lemma map_put_distinct: "distinct (map fst m) \<Longrightarrow> distinct (map fst (map_put k v m))"
proof (induction m)
  case Nil
  then show ?case by simp
next
  case (Cons p ps)
  have "fst ` set (map_put k v ps) = insert k (fst ` set ps)"
    by (rule map_put_keys)
  with Cons show ?case
    by auto
qed

lemma foldl_map_put_distinct:
  "distinct (map fst m) \<Longrightarrow> distinct (map fst (foldl (\<lambda>m x. map_put (key x) x m) m xs))"
  by (induction xs arbitrary: m) (simp_all add: map_put_distinct)

lemma make_map_distinct: "distinct (map fst (make_map key xs))"
  by (simp add: make_map_def foldl_map_put_distinct)

lemma range_map_set: "set (range_map rank m) = set m"
  by (simp add: range_map_def)

lemma missing_from_self: "missing_from rank m m = []"
proof -
  have "map_of m (fst p) \<noteq> None" if "p \<in> set m" for p
    using that by (simp add: map_of_eq_None_iff)
  then have "filter (\<lambda>p. map_of m (fst p) = None) (range_map rank m) = []"
    by (simp add: filter_empty_conv range_map_set)
  then show ?thesis
    by (simp add: missing_from_def)
qed

lemma map_filter_empty: "(\<And>x. x \<in> set xs \<Longrightarrow> f x = None) \<Longrightarrow> List.map_filter f xs = []"
  by (induction xs) (simp_all add: List.map_filter_simps)

lemma same_entry:
  assumes "distinct (map fst m)" "(k, v) \<in> set m"
  shows "map_of m k = Some v"
  using assms by simp

lemma EqualFold_refl: "EqualFold a a"
  by (simp add: EqualFold_def)

lemma sameDefault_refl: "sameDefault a a"
  by (cases a) (simp_all add: sameDefault_def EqualFold_refl)

lemma samePrimaryKey_refl: "samePrimaryKey d pk pk"
  by (cases pk) (auto simp: samePrimaryKey_def list_all_iff zip_same)

lemma compareColumn_same: "compareColumn d c c = None"
  by (simp add: compareColumn_def EqualFold_refl sameDefault_refl)

lemma lookup_loop_same:
  assumes "\<And>k v. f k v v = None"
  shows "List.map_filter
           (\<lambda>(name, src). (case map_of (make_map key xs) name of
                                None \<Rightarrow> None
                              | Some tgt \<Rightarrow> f name src tgt))
           (range_map rank (make_map key xs)) = []"
proof (rule map_filter_empty)
  fix x
  assume "x \<in> set (range_map rank (make_map key xs))"
  then have "map_of (make_map key xs) (fst x) = Some (snd x)"
    using same_entry [OF make_map_distinct, of "fst x" "snd x"] by (simp add: range_map_set)
  then show "(case x of (name, src) \<Rightarrow>
               (case map_of (make_map key xs) name of
                  None \<Rightarrow> None
                | Some tgt \<Rightarrow> f name src tgt)) = None"
    by (cases x) (simp add: assms)
qed

lemma compareTable_same: "compareTable rank d t t = None"
proof -
  have "List.map_filter
          (\<lambda>(name, sourceCol). (case map_of (make_map Column_Name (Table_Columns t)) name of
                                   None \<Rightarrow> None
                                 | Some targetCol \<Rightarrow> compareColumn d sourceCol targetCol))
          (range_map rank (make_map Column_Name (Table_Columns t))) = []"
    by (rule lookup_loop_same [where f = "\<lambda>name. compareColumn d"]) (rule compareColumn_same)
  then show ?thesis
    by (simp add: compareTable_def Let_def missing_from_self samePrimaryKey_refl)
qed

lemma modified_tables_same:
  "List.map_filter
     (\<lambda>(name, sourceTable). (case map_of (make_map Table_Name ts) name of
                                None \<Rightarrow> None
                              | Some targetTable \<Rightarrow> compareTable rank d sourceTable targetTable))
     (range_map rank (make_map Table_Name ts)) = []"
  by (rule lookup_loop_same [where f = "\<lambda>name. compareTable rank d"]) (rule compareTable_same)

lemma modified_views_same:
  "List.map_filter
     (\<lambda>(name, sourceView).
        (case map_of (make_map View_Name vs) name of
           None \<Rightarrow> None
         | Some targetView \<Rightarrow>
             if diff_normalizeSQL (View_Definition sourceView)
                  \<noteq> diff_normalizeSQL (View_Definition targetView)
             then Some \<lparr>ViewChanges_Name = name,
                        ViewChanges_OldDefinition = View_Definition sourceView,
                        ViewChanges_NewDefinition = View_Definition targetView\<rparr>
             else None))
     (range_map rank (make_map View_Name vs)) = []"
  by (rule lookup_loop_same
        [where f = "\<lambda>name sourceView targetView.
                      if diff_normalizeSQL (View_Definition sourceView)
                           \<noteq> diff_normalizeSQL (View_Definition targetView)
                      then Some \<lparr>ViewChanges_Name = name,
                                 ViewChanges_OldDefinition = View_Definition sourceView,
                                 ViewChanges_NewDefinition = View_Definition targetView\<rparr>
                      else None"]) simp

text \<open>
  Claim C4. Diffing a schema against itself gives a \<open>Changes\<close> value with every list
  empty, so \<open>IsEmpty\<close> holds of it, in whatever order the maps are visited.
\<close>

theorem C4_diff_self_is_empty:
  "IsEmpty (Diff rank s s)
   \<and> Diff rank s s =
       \<lparr>AddedTables = [], RemovedTables = [], ModifiedTables = [],
        AddedIndexes = [], RemovedIndexes = [],
        AddedViews = [], RemovedViews = [], ModifiedViews = []\<rparr>"
  by (simp add: IsEmpty_def Diff_def Compare_def compareViews_def compareStandaloneIndexes_def
      compareTables_def Let_def missing_from_self modified_tables_same modified_views_same)


section \<open>Properties of the statement splitter\<close>







section \<open>Properties of the parser\<close>

lemma HasPrefix_iff: "HasPrefix s p \<longleftrightarrow> (\<exists>r. s = p @ r)"
  by (induction s p rule: HasPrefix.induct) auto





lemma parseCreateTable_panics:
  assumes "\<not> parens_in_order stmt"
  shows "\<exists>msg. parseCreateTable p stmt = Inl (Panic msg)"
  using assms
  by (auto simp: parseCreateTable_def parens_in_order_def Let_def split: option.splits)




lemma Contains_iff: "Contains s sub \<longleftrightarrow> (\<exists>a b. s = a @ sub @ b)"
proof (induction s)
  case Nil
  then show ?case by auto
next
  case (Cons c cs)
  show ?case
  proof
    assume "Contains (c # cs) sub"
    then consider "HasPrefix (c # cs) sub" | "Contains cs sub" by auto
    then show "\<exists>a b. c # cs = a @ sub @ b"
    proof cases
      case 1
      then obtain r where "c # cs = sub @ r" by (auto simp: HasPrefix_iff)
      then have "c # cs = [] @ sub @ r" by simp
      then show ?thesis by blast
    next
      case 2
      then obtain a b where "cs = a @ sub @ b" using Cons.IH by blast
      then have "c # cs = (c # a) @ sub @ b" by simp
      then show ?thesis by blast
    qed
  next
    assume "\<exists>a b. c # cs = a @ sub @ b"
    then obtain a b where ab: "c # cs = a @ sub @ b" by blast
    show "Contains (c # cs) sub"
    proof (cases a)
      case Nil
      then have "HasPrefix (c # cs) sub" using ab by (auto simp: HasPrefix_iff)
      then show ?thesis by simp
    next
      case (Cons x xs)
      then have "cs = xs @ sub @ b" using ab by simp
      then have "Contains cs sub" using Cons.IH by blast
      then show ?thesis by simp
    qed
  qed
qed

lemma rmatch_Seq_mem:
  "(c, s') \<in> set (rmatch (Seq a b) s)
   \<longleftrightarrow> (\<exists>c1 s1 c2. (c1, s1) \<in> set (rmatch a s) \<and> (c2, s') \<in> set (rmatch b s1)
          \<and> c = c1 @ c2)"
  by (force simp: rmatch.simps split_def image_iff)

lemma rmatch_Chr_mem:
  "(c, s') \<in> set (rmatch (Chr k) s) \<longleftrightarrow> (\<exists>x. s = x # s' \<and> in_class k x \<and> c = [])"
  by (cases s) (auto simp: rmatch.simps)

lemma rmatch_Seq_nonempty:
  assumes "rmatch (Seq a b) s \<noteq> []"
  shows "\<exists>c1 s1. (c1, s1) \<in> set (rmatch a s)"
proof -
  from assms obtain x xs where "rmatch (Seq a b) s = x # xs"
    by (meson neq_Nil_conv)
  then have "(fst x, snd x) \<in> set (rmatch (Seq a b) s)"
    by (simp only: prod.collapse list.set_intros)
  then show ?thesis
    unfolding rmatch_Seq_mem by blast
qed

lemma liti_Cons: "liti (x # w) = Seq (Chr (CLitI x)) (liti w)"
  by (simp add: liti_def seqs_def)

lemma rmatch_liti:
  "(c, s') \<in> set (rmatch (liti w) s) \<Longrightarrow> \<exists>u. s = u @ s' \<and> ToUpper u = ToUpper w"
proof (induction w arbitrary: c s)
  case Nil
  then show ?case by (simp add: liti_def seqs_def rmatch.simps)
next
  case (Cons x w)
  from Cons.prems obtain c1 s1 c2 where
    a: "(c1, s1) \<in> set (rmatch (Chr (CLitI x)) s)" and b: "(c2, s') \<in> set (rmatch (liti w) s1)"
    unfolding liti_Cons rmatch_Seq_mem by blast
  from a obtain y where y: "s = y # s1" "toUpperC y = toUpperC x"
    unfolding rmatch_Chr_mem by auto
  from Cons.IH [OF b] obtain u where "s1 = u @ s'" "ToUpper u = ToUpper w" by blast
  with y have "s = (y # u) @ s' \<and> ToUpper (y # u) = ToUpper (x # w)"
    by (simp add: ToUpper_def)
  then show ?case by blast
qed

lemma rfind_from_Some:
  "rfind_from r pre s = Some m \<Longrightarrow> \<exists>a s'. s = a @ s' \<and> rmatch r s' \<noteq> []"
proof (induction s arbitrary: pre)
  case Nil
  then have "rmatch r [] \<noteq> []"
    by (auto simp: rfind_from.simps [of r pre "[]"] split: list.splits)
  then show ?case by simp
next
  case (Cons c cs)
  show ?case
  proof (cases "rmatch r (c # cs)")
    case Nil
    then have "rfind_from r (pre @ [c]) cs = Some m"
      using Cons.prems by (simp add: rfind_from.simps [of r pre "c # cs"])
    from Cons.IH [OF this] obtain a s' where "cs = a @ s'" "rmatch r s' \<noteq> []" by blast
    then have "c # cs = (c # a) @ s'" by simp
    then show ?thesis using \<open>rmatch r s' \<noteq> []\<close> by blast
  next
    case (Cons x xs)
    then have "c # cs = [] @ (c # cs) \<and> rmatch r (c # cs) \<noteq> []" by simp
    then show ?thesis by blast
  qed
qed

lemma ToUpper_append: "ToUpper (a @ b) = ToUpper a @ ToUpper b"
  by (simp add: ToUpper_def)

lemma rfind_liti_Contains:
  assumes "rfind (Seq (liti w) r) s = Some m"
  shows "Contains (ToUpper s) (ToUpper w)"
proof -
  from assms obtain a s' where s: "s = a @ s'" and ne: "rmatch (Seq (liti w) r) s' \<noteq> []"
    using rfind_from_Some [of "Seq (liti w) r" "[]" s m] by (auto simp: rfind_def)
  from rmatch_Seq_nonempty [OF ne] obtain c1 s1 where "(c1, s1) \<in> set (rmatch (liti w) s')"
    by blast
  from rmatch_liti [OF this] obtain u where "s' = u @ s1" "ToUpper u = ToUpper w" by blast
  with s have "ToUpper s = ToUpper a @ ToUpper w @ ToUpper s1"
    by (simp add: ToUpper_append)
  then show ?thesis
    by (auto simp: Contains_iff)
qed

lemma refRe_needs_keyword:
  assumes "\<not> Contains (ToUpper def) ''REFERENCES''"
  shows "rfind refRe def = None"
proof (cases "rfind refRe def")
  case None
  then show ?thesis .
next
  case (Some m)
  have up: "ToUpper ''REFERENCES'' = ''REFERENCES''" by code_simp
  have "Contains (ToUpper def) (ToUpper ''REFERENCES'')"
    using Some by (intro rfind_liti_Contains [where m = m]) (simp add: refRe_def seqs_def)
  with assms up show ?thesis by simp
qed

lemma Split_aux_nonempty: "Split_aux sep cur s \<noteq> []"
  by (induction s arbitrary: cur) auto

lemma listColumns_nonempty: "listColumns s \<noteq> []"
  by (simp add: listColumns_def Split_def Split_aux_nonempty)


subsection \<open>The regular expressions of the foreign-key member\<close>


lemma seqs_Nil: "seqs [] = Eps"
  by (simp add: seqs_def)

lemma seqs_Cons: "seqs (a # rs) = Seq a (seqs rs)"
  by (simp add: seqs_def)

lemma lit_Nil: "lit [] = Eps"
  by (simp add: lit_def seqs_def)

lemma lit_Cons: "lit (x # w) = Seq (Chr (CLit x)) (lit w)"
  by (simp add: lit_def seqs_def)

lemma mem_Eps: "(c, s2) \<in> set (rmatch Eps s) \<longleftrightarrow> c = [] \<and> s2 = s"
  by (auto simp: rmatch.simps)

lemma mem_Seq:
  "(c, s') \<in> set (rmatch (Seq a b) s)
   \<longleftrightarrow> (\<exists>c1 s1 c2. (c1, s1) \<in> set (rmatch a s) \<and> (c2, s') \<in> set (rmatch b s1)
          \<and> c = c1 @ c2)"
  by (force simp: rmatch.simps split_def image_iff)

lemma mem_Chr:
  "(c, s') \<in> set (rmatch (Chr k) s) \<longleftrightarrow> (\<exists>x. s = x # s' \<and> in_class k x \<and> c = [])"
  by (cases s) (auto simp: rmatch.simps)

lemma mem_Star:
  "(c, s2) \<in> set (rmatch (Star a) s)
   \<longleftrightarrow> (c = [] \<and> s2 = s)
       \<or> (\<exists>c1 s1 c2. (c1, s1) \<in> set (rmatch a s) \<and> length s1 < length s
             \<and> (c2, s2) \<in> set (rmatch (Star a) s1) \<and> c = c1 @ c2)"
  by (subst rmatch.simps) (force simp: split_def image_iff)

lemma mem_LazyStar:
  "(c, s2) \<in> set (rmatch (LazyStar a) s)
   \<longleftrightarrow> (c = [] \<and> s2 = s)
       \<or> (\<exists>c1 s1 c2. (c1, s1) \<in> set (rmatch a s) \<and> length s1 < length s
             \<and> (c2, s2) \<in> set (rmatch (LazyStar a) s1) \<and> c = c1 @ c2)"
  by (subst rmatch.simps) (force simp: split_def image_iff)

lemma consumed:
  "(c, s2) \<in> set (rmatch r s) \<Longrightarrow> \<exists>u. s = u @ s2 \<and> (\<forall>x\<in>set u. consumes r x)"
proof (induction r s arbitrary: c s2 rule: rmatch.induct)
  case (1 s)
  then show ?case by (simp add: mem_Eps)
next
  case (2 k s)
  then show ?case by (auto simp: mem_Chr)
next
  case (3 s)
  then show ?case by (auto simp: rmatch.simps split: if_splits)
next
  case (4 a b s)
  from "4.prems" obtain c1 s1 c2 where
    a: "(c1, s1) \<in> set (rmatch a s)" and b: "(c2, s2) \<in> set (rmatch b s1)"
    unfolding mem_Seq by blast
  from "4.IH"(1) [OF a] obtain u1 where u1: "s = u1 @ s1" "\<forall>x\<in>set u1. consumes a x"
    by blast
  from "4.IH"(2) [OF a refl b] obtain u2 where u2: "s1 = u2 @ s2" "\<forall>x\<in>set u2. consumes b x"
    by blast
  from u1 u2 have "s = (u1 @ u2) @ s2 \<and> (\<forall>x\<in>set (u1 @ u2). consumes (Seq a b) x)"
    by auto
  then show ?case by blast
next
  case (5 a b s)
  from "5.prems" consider "(c, s2) \<in> set (rmatch a s)" | "(c, s2) \<in> set (rmatch b s)"
    by (auto simp: rmatch.simps)
  then show ?case
  proof cases
    case 1
    from "5.IH"(1) [OF this] show ?thesis by auto
  next
    case 2
    from "5.IH"(2) [OF this] show ?thesis by auto
  qed
next
  case (6 a s)
  from "6.prems" consider "(c, s2) \<in> set (rmatch a s)" | "c = []" "s2 = s"
    by (auto simp: rmatch.simps)
  then show ?case
  proof cases
    case 1
    from "6.IH" [OF this] show ?thesis by auto
  next
    case 2
    then show ?thesis by simp
  qed
next
  case (7 a s)
  from "7.prems" consider "c = []" "s2 = s"
    | c1 s1 c2 where "(c1, s1) \<in> set (rmatch a s)" "length s1 < length s"
        "(c2, s2) \<in> set (rmatch (Star a) s1)"
    using mem_Star [of c s2 a s] by blast
  then show ?case
  proof cases
    case 1
    then show ?thesis by simp
  next
    case 2
    from "7.IH"(1) [OF 2(1)] obtain u1 where u1: "s = u1 @ s1" "\<forall>x\<in>set u1. consumes a x"
      by blast
    from "7.IH"(2) [OF 2(1) refl 2(2) 2(3)] obtain u2 where
      u2: "s1 = u2 @ s2" "\<forall>x\<in>set u2. consumes (Star a) x"
      by blast
    from u1 u2 have "s = (u1 @ u2) @ s2 \<and> (\<forall>x\<in>set (u1 @ u2). consumes (Star a) x)"
      by auto
    then show ?thesis by blast
  qed
next
  case (8 a s)
  from "8.prems" consider "c = []" "s2 = s"
    | c1 s1 c2 where "(c1, s1) \<in> set (rmatch a s)" "length s1 < length s"
        "(c2, s2) \<in> set (rmatch (LazyStar a) s1)"
    using mem_LazyStar [of c s2 a s] by blast
  then show ?case
  proof cases
    case 1
    then show ?thesis by simp
  next
    case 2
    from "8.IH"(1) [OF 2(1)] obtain u1 where u1: "s = u1 @ s1" "\<forall>x\<in>set u1. consumes a x"
      by blast
    from "8.IH"(2) [OF 2(1) refl 2(2) 2(3)] obtain u2 where
      u2: "s1 = u2 @ s2" "\<forall>x\<in>set u2. consumes (LazyStar a) x"
      by blast
    from u1 u2 have "s = (u1 @ u2) @ s2 \<and> (\<forall>x\<in>set (u1 @ u2). consumes (LazyStar a) x)"
      by auto
    then show ?thesis by blast
  qed
next
  case (9 n a s)
  from "9.prems" obtain c' where "(c', s2) \<in> set (rmatch a s)"
    by (auto simp: rmatch.simps)
  from "9.IH" [OF this] show ?case by auto
qed

lemma mem_seqs_append:
  "(c, s2) \<in> set (rmatch (seqs (xs @ ys)) s)
   \<Longrightarrow> \<exists>c1 s1 c2. (c1, s1) \<in> set (rmatch (seqs xs) s) \<and> (c2, s2) \<in> set (rmatch (seqs ys) s1)"
proof (induction xs arbitrary: c s)
  case Nil
  then show ?case by (auto simp: seqs_Nil mem_Eps)
next
  case (Cons a xs)
  from Cons.prems obtain c1 s1 c2 where
    a: "(c1, s1) \<in> set (rmatch a s)" and r: "(c2, s2) \<in> set (rmatch (seqs (xs @ ys)) s1)"
    by (auto simp: seqs_Cons mem_Seq)
  from Cons.IH [OF r] obtain d1 t1 d2 where
    x: "(d1, t1) \<in> set (rmatch (seqs xs) s1)" and y: "(d2, s2) \<in> set (rmatch (seqs ys) t1)"
    by blast
  from a x have "(c1 @ d1, t1) \<in> set (rmatch (seqs (a # xs)) s)"
    by (auto simp: seqs_Cons mem_Seq)
  with y show ?case by blast
qed

subsection \<open>The first match\<close>

lemma first_match_iff: "first_match r s = Some v \<longleftrightarrow> (\<exists>zs. rmatch r s = v # zs)"
  by (auto simp: first_match_def split: list.splits)

lemma first_match_None: "first_match r s = None \<longleftrightarrow> rmatch r s = []"
  by (auto simp: first_match_def split: list.splits)

lemma first_Eps: "first_match Eps s = Some ([], s)"
  by (simp add: first_match_def rmatch.simps)

lemma first_Chr: "in_class k x \<Longrightarrow> first_match (Chr k) (x # s) = Some ([], s)"
  by (simp add: first_match_def rmatch.simps)

lemma first_Seq:
  assumes "first_match a s = Some (c1, s1)" "first_match b s1 = Some (c2, s2)"
  shows "first_match (Seq a b) s = Some (c1 @ c2, s2)"
proof -
  from assms obtain xs ys where "rmatch a s = (c1, s1) # xs" "rmatch b s1 = (c2, s2) # ys"
    unfolding first_match_iff by blast
  then show ?thesis
    by (simp add: first_match_def rmatch.simps)
qed

lemma first_Opt_None: "rmatch a s = [] \<Longrightarrow> first_match (Opt a) s = Some ([], s)"
  by (simp add: first_match_def rmatch.simps)

lemma first_Group:
  assumes "first_match a s = Some (c, s2)"
  shows "first_match (Group n a) s = Some (c @ [(n, take (length s - length s2) s)], s2)"
proof -
  from assms obtain xs where "rmatch a s = (c, s2) # xs"
    unfolding first_match_iff by blast
  then show ?thesis
    by (simp add: first_match_def rmatch.simps)
qed

lemma first_Star_Chr: "first_match (Star (Chr k)) s = Some ([], dropWhile (in_class k) s)"
proof (induction s)
  case Nil
  then show ?case by (simp add: first_match_def rmatch.simps)
next
  case (Cons x xs)
  show ?case
  proof (cases "in_class k x")
    case True
    from Cons.IH obtain zs where "rmatch (Star (Chr k)) xs = ([], dropWhile (in_class k) xs) # zs"
      unfolding first_match_iff by blast
    then show ?thesis
      using True by (simp add: first_match_def rmatch.simps(7) [of "Chr k" "x # xs"] rmatch.simps(2))
  next
    case False
    then show ?thesis
      by (simp add: first_match_def rmatch.simps(7) [of "Chr k" "x # xs"] rmatch.simps(2))
  qed
qed

lemma first_Plus_Chr:
  assumes "in_class k x"
  shows "first_match (Plus (Chr k)) (x # s) = Some ([], dropWhile (in_class k) s)"
  using first_Seq [OF first_Chr [OF assms] first_Star_Chr] by (simp add: Plus_def)

lemma first_lit: "first_match (lit w) (w @ s) = Some ([], s)"
proof (induction w)
  case Nil
  then show ?case by (simp add: lit_Nil first_Eps)
next
  case (Cons x w)
  have "first_match (Chr (CLit x)) (x # w @ s) = Some ([], w @ s)"
    by (rule first_Chr) simp
  from first_Seq [OF this Cons.IH] show ?case
    by (simp add: lit_Cons)
qed

lemma liti_Nil: "liti [] = Eps"
  by (simp add: liti_def seqs_def)

lemma first_liti:
  assumes "ToUpper u = ToUpper w"
  shows "first_match (liti w) (u @ s) = Some ([], s)"
  using assms
proof (induction w arbitrary: u)
  case Nil
  then show ?case by (simp add: liti_Nil first_Eps ToUpper_def)
next
  case (Cons x w)
  from Cons.prems obtain y u' where u: "u = y # u'" "toUpperC y = toUpperC x" "ToUpper u' = ToUpper w"
    by (cases u) (auto simp: ToUpper_def)
  have "first_match (Chr (CLitI x)) (y # u' @ s) = Some ([], u' @ s)"
    by (rule first_Chr) (simp add: u(2))
  from first_Seq [OF this Cons.IH [OF u(3)]] show ?case
    by (simp add: liti_Cons u(1))
qed

subsection \<open>The unanchored search\<close>

lemma rfind_from_found:
  assumes "first_match r s = Some (c, s2)"
  shows "rfind_from r pre s
         = Some \<lparr>m_before = pre, m_text = take (length s - length s2) s,
                 m_caps = c, m_after = s2\<rparr>"
proof -
  from assms obtain zs where "rmatch r s = (c, s2) # zs"
    unfolding first_match_iff by blast
  then show ?thesis
    by (simp add: rfind_from.simps [of r pre s])
qed

lemma rfind_from_skip1:
  assumes "rmatch r (x # s) = []"
  shows "rfind_from r pre (x # s) = rfind_from r (pre @ [x]) s"
  using assms by (simp add: rfind_from.simps [of r pre "x # s"])

lemma rfind_from_skip:
  assumes "\<And>i. i < length a \<Longrightarrow> rmatch r (drop i a @ t) = []"
  shows "rfind_from r pre (a @ t) = rfind_from r (pre @ a) t"
  using assms
proof (induction a arbitrary: pre)
  case Nil
  then show ?case by simp
next
  case (Cons x a)
  have "rmatch r (x # a @ t) = []"
    using Cons.prems [of 0] by simp
  then have 1: "rfind_from r pre ((x # a) @ t) = rfind_from r (pre @ [x]) (a @ t)"
    by (simp add: rfind_from_skip1)
  have "rmatch r (drop i a @ t) = []" if "i < length a" for i
    using Cons.prems [of "Suc i"] that by simp
  from Cons.IH [OF this] have "rfind_from r (pre @ [x]) (a @ t) = rfind_from r ((pre @ [x]) @ a) t"
    by blast
  with 1 show ?case by simp
qed

lemma split_unique:
  assumes "a @ x # b = a' @ x' # b'"
    and "\<forall>y\<in>set a. P y" and "\<forall>y\<in>set a'. P y" and "\<not> P x" and "\<not> P x'"
  shows "a = a' \<and> x = x'"
proof -
  have "takeWhile P (a @ x # b) = a"
    using assms(2,4) by (simp add: takeWhile_append2)
  moreover have "takeWhile P (a' @ x' # b') = a'"
    using assms(3,5) by (simp add: takeWhile_append2)
  ultimately have "a = a'"
    using assms(1) by simp
  with assms(1) show ?thesis by simp
qed

lemma word_not_special:
  assumes "isWordChar x"
  shows "x \<noteq> CHR ''(''" "x \<noteq> CHR '')''" "x \<noteq> CHR ''.''" "x \<noteq> CHR 0x22" "x \<noteq> CHR 0x27"
    "\<not> in_class CSpace x"
  using assms by (auto simp: isWordChar_def)

lemma first_paren_group:
  assumes "G \<noteq> []" "\<forall>x\<in>set G. x \<noteq> CHR '')''"
  shows "first_match (seqs [lit ''('', Group n (Plus notClose), lit '')''])
           (''('' @ G @ '')'' @ Y) = Some ([(n, G)], Y)"
proof -
  obtain x G' where G: "G = x # G'"
    using assms(1) by (cases G) auto
  have dw: "dropWhile (in_class (CNoneOf '')'')) (G' @ '')'' @ Y) = '')'' @ Y"
    using assms(2) G by (simp add: dropWhile_append2)
  have "in_class (CNoneOf '')'') x"
    using assms(2) G by simp
  from first_Plus_Chr [OF this, of "G' @ '')'' @ Y"] dw
  have p: "first_match (Plus notClose) (G @ '')'' @ Y) = Some ([], '')'' @ Y)"
    by (simp add: G)
  have g: "first_match (Group n (Plus notClose)) (G @ '')'' @ Y) = Some ([(n, G)], '')'' @ Y)"
    using first_Group [OF p, of n] by simp
  have c: "first_match (seqs [lit '')'']) ('')'' @ Y) = Some ([], Y)"
    using first_Seq [OF first_lit first_Eps, of "'')''" Y] by (simp add: seqs_Cons seqs_Nil)
  have gc: "first_match (seqs [Group n (Plus notClose), lit '')'']) (G @ '')'' @ Y)
            = Some ([(n, G)], Y)"
    using first_Seq [OF g c] by (simp add: seqs_Cons)
  have o: "first_match (lit ''('') (''('' @ G @ '')'' @ Y) = Some ([], G @ '')'' @ Y)"
    by (rule first_lit)
  show ?thesis
    using first_Seq [OF o gc] by (simp add: seqs_Cons)
qed

lemma first_localRe:
  assumes "L \<noteq> []" "\<forall>x\<in>set L. x \<noteq> CHR '')''"
  shows "first_match localRe (''FOREIGN KEY ('' @ L @ '')'' @ Y) = Some ([(1, L)], Y)"
proof -
  have t: "first_match (seqs [lit ''('', Group 1 (Plus notClose), lit '')''])
             (''('' @ L @ '')'' @ Y) = Some ([(1, L)], Y)"
    by (rule first_paren_group [OF assms])
  have s4: "first_match (Star sp) ('' ('' @ L @ '')'' @ Y) = Some ([], ''('' @ L @ '')'' @ Y)"
    using first_Star_Chr [of CSpace "'' ('' @ L @ '')'' @ Y"] by simp
  have s3: "first_match (liti ''KEY'') (''KEY ('' @ L @ '')'' @ Y)
            = Some ([], '' ('' @ L @ '')'' @ Y)"
    using first_liti [of "''KEY''" "''KEY''" "'' ('' @ L @ '')'' @ Y"] by simp
  have s2: "first_match (Plus sp) ('' KEY ('' @ L @ '')'' @ Y)
            = Some ([], ''KEY ('' @ L @ '')'' @ Y)"
    using first_Plus_Chr [of CSpace "CHR '' ''" "''KEY ('' @ L @ '')'' @ Y"] by simp
  have s1: "first_match (liti ''FOREIGN'') (''FOREIGN KEY ('' @ L @ '')'' @ Y)
            = Some ([], '' KEY ('' @ L @ '')'' @ Y)"
    using first_liti [of "''FOREIGN''" "''FOREIGN''" "'' KEY ('' @ L @ '')'' @ Y"] by simp
  show ?thesis
    using first_Seq [OF s1 first_Seq [OF s2 first_Seq [OF s3 first_Seq [OF s4 t]]]]
    by (simp add: localRe_def seqs_Cons)
qed

lemma no_schema:
  assumes "\<forall>x\<in>set T. isWordChar x"
  shows "rmatch (seqs [Group 1 (Plus word), lit ''.'']) (T @ CHR ''('' # Y) = []"
proof (rule ccontr)
  assume "rmatch (seqs [Group 1 (Plus word), lit ''.'']) (T @ CHR ''('' # Y) \<noteq> []"
  then obtain c s2 where "(c, s2) \<in> set (rmatch (seqs [Group 1 (Plus word), lit ''.'']) (T @ CHR ''('' # Y))"
    by (metis list.set_intros(1) neq_Nil_conv surj_pair)
  then obtain c1 s1 c2 where
    a: "(c1, s1) \<in> set (rmatch (Group 1 (Plus word)) (T @ CHR ''('' # Y))"
    and b: "(c2, s2) \<in> set (rmatch (seqs [lit ''.'']) s1)"
    unfolding seqs_Cons mem_Seq by blast
  from consumed [OF a] obtain u where u: "T @ CHR ''('' # Y = u @ s1" "\<forall>x\<in>set u. isWordChar x"
    by (auto simp: Plus_def)
  from b have "\<exists>t. s1 = CHR ''.'' # t"
    by (auto simp: seqs_Cons seqs_Nil lit_Cons lit_Nil mem_Seq mem_Chr mem_Eps)
  then obtain t where "s1 = CHR ''.'' # t" by blast
  with u have "T @ CHR ''('' # Y = u @ CHR ''.'' # t" by simp
  then have "CHR ''('' = CHR ''.''"
    by (rule conjunct2 [OF split_unique [of _ _ _ _ _ _ isWordChar]])
       (use assms u(2) in \<open>simp_all add: isWordChar_def\<close>)
  then show False by simp
qed

lemma first_refRe:
  assumes "T \<noteq> []" "\<forall>x\<in>set T. isWordChar x" "R \<noteq> []" "\<forall>x\<in>set R. x \<noteq> CHR '')''"
  shows "first_match refRe (''REFERENCES '' @ T @ ''('' @ R @ '')'' @ Y)
         = Some ([(2, T), (3, R)], Y)"
proof -
  obtain x T' where T: "T = x # T'"
    using assms(1) by (cases T) auto
  have wx: "isWordChar x"
    using assms(2) T by simp
  let ?W = "''('' @ R @ '')'' @ Y"
  have t: "first_match (seqs [lit ''('', Group 3 (Plus notClose), lit '')'']) ?W
           = Some ([(3, R)], Y)"
    by (rule first_paren_group [OF assms(3,4)])
  have r7: "first_match (Star sp) ?W = Some ([], ?W)"
    using first_Star_Chr [of CSpace ?W] by simp
  have r6: "first_match (Opt quote) ?W = Some ([], ?W)"
    by (rule first_Opt_None) (simp add: rmatch.simps)
  have dw: "dropWhile (in_class CWord) (T' @ ?W) = ?W"
    using assms(2) T by (simp add: dropWhile_append2 isWordChar_def)
  have "first_match (Plus word) (T @ ?W) = Some ([], ?W)"
    using first_Plus_Chr [of CWord x "T' @ ?W"] wx dw by (simp add: T)
  from first_Group [OF this, of 2]
  have r5: "first_match (Group 2 (Plus word)) (T @ ?W) = Some ([(2, T)], ?W)"
    by simp
  have r4: "first_match (Opt quote) (T @ ?W) = Some ([], T @ ?W)"
    by (rule first_Opt_None) (use word_not_special [OF wx] in \<open>simp add: T rmatch.simps\<close>)
  have "rmatch (seqs [Group 1 (Plus word), lit ''.'']) (T @ CHR ''('' # R @ '')'' @ Y) = []"
    by (rule no_schema [OF assms(2)])
  then have r3: "first_match (Opt (seqs [Group 1 (Plus word), lit ''.''])) (T @ ?W)
                 = Some ([], T @ ?W)"
    by (intro first_Opt_None) simp
  have "dropWhile (in_class CSpace) (T @ ?W) = T @ ?W"
    using word_not_special(6) [OF wx] by (simp add: T)
  then have r2: "first_match (Plus sp) ('' '' @ T @ ?W) = Some ([], T @ ?W)"
    using first_Plus_Chr [of CSpace "CHR '' ''" "T @ ?W"] by simp
  have r1: "first_match (liti ''REFERENCES'') (''REFERENCES '' @ T @ ?W)
            = Some ([], '' '' @ T @ ?W)"
    using first_liti [of "''REFERENCES''" "''REFERENCES''" "'' '' @ T @ ?W"] by simp
  show ?thesis
    using first_Seq [OF r1 first_Seq [OF r2 first_Seq [OF r3 first_Seq [OF r4
            first_Seq [OF r5 first_Seq [OF r6 first_Seq [OF r7 t]]]]]]]
    by (simp add: refRe_def seqs_Cons)
qed

lemma mid_no_paren:
  assumes "consumes (seqs [Plus sp, Opt (seqs [Group 1 (Plus word), lit ''.'']), Opt quote,
                          Group 2 (Plus word), Opt quote, Star sp]) x"
  shows "x \<noteq> CHR ''('' \<and> x \<noteq> CHR '')''"
  using assms by (auto simp: seqs_def Plus_def lit_def isWordChar_def)

lemma upper_keyword_no_paren:
  assumes "ToUpper u = ''REFERENCES''" "x \<in> set u"
  shows "x \<noteq> CHR ''('' \<and> x \<noteq> CHR '')''"
proof -
  from assms(2) have "toUpperC x \<in> set (ToUpper u)"
    by (simp add: ToUpper_def)
  then have "toUpperC x \<in> set ''REFERENCES''"
    by (simp only: assms(1))
  then show ?thesis
    by (auto simp: toUpperC_def)
qed

lemma refRe_shape:
  assumes "rmatch refRe s \<noteq> []"
  obtains u1 w v where "s = u1 @ w @ CHR ''('' # v" and "ToUpper u1 = ''REFERENCES''"
    and "\<forall>x\<in>set w. x \<noteq> CHR ''('' \<and> x \<noteq> CHR '')''"
proof -
  have eq: "refRe = Seq (liti ''REFERENCES'')
              (seqs ([Plus sp, Opt (seqs [Group 1 (Plus word), lit ''.'']), Opt quote,
                      Group 2 (Plus word), Opt quote, Star sp]
                     @ [lit ''('', Group 3 (Plus notClose), lit '')'']))"
    by (simp add: refRe_def seqs_Cons)
  from assms obtain c s2 where "(c, s2) \<in> set (rmatch refRe s)"
    by (metis list.set_intros(1) neq_Nil_conv surj_pair)
  then obtain c1 s1 c2 where
    a: "(c1, s1) \<in> set (rmatch (liti ''REFERENCES'') s)"
    and b: "(c2, s2) \<in> set (rmatch (seqs ([Plus sp, Opt (seqs [Group 1 (Plus word), lit ''.'']),
                 Opt quote, Group 2 (Plus word), Opt quote, Star sp]
                @ [lit ''('', Group 3 (Plus notClose), lit '')''])) s1)"
    unfolding eq mem_Seq by blast
  have up: "ToUpper ''REFERENCES'' = ''REFERENCES''"
    by code_simp
  from rmatch_liti [OF a] up obtain u1 where u1: "s = u1 @ s1" "ToUpper u1 = ''REFERENCES''"
    by auto
  from mem_seqs_append [OF b] obtain d1 t1 d2 where
    m: "(d1, t1) \<in> set (rmatch (seqs [Plus sp, Opt (seqs [Group 1 (Plus word), lit ''.'']),
                 Opt quote, Group 2 (Plus word), Opt quote, Star sp]) s1)"
    and t: "(d2, s2) \<in> set (rmatch (seqs [lit ''('', Group 3 (Plus notClose), lit '')'']) t1)"
    by blast
  from consumed [OF m] obtain w where
    w: "s1 = w @ t1" "\<forall>x\<in>set w. x \<noteq> CHR ''('' \<and> x \<noteq> CHR '')''"
    using mid_no_paren by blast
  from t have "\<exists>v. t1 = CHR ''('' # v"
    by (auto simp: seqs_Cons lit_Cons lit_Nil mem_Seq mem_Chr mem_Eps)
  then obtain v where "t1 = CHR ''('' # v" by (elim exE)
  with u1 w have "s = u1 @ w @ CHR ''('' # v" by simp
  then show thesis
    using u1(2) w(2) by (rule that)
qed

lemma no_ref_unless_prefix:
  assumes "ToUpper (take 3 s) \<noteq> ''REF''"
  shows "rmatch refRe s = []"
proof (rule ccontr)
  assume "rmatch refRe s \<noteq> []"
  then obtain u1 w v where
    s: "s = u1 @ w @ CHR ''('' # v" and u: "ToUpper u1 = ''REFERENCES''"
    by (rule refRe_shape)
  have "length (ToUpper u1) = length u1"
    by (simp add: ToUpper_def)
  then have "length u1 = 10"
    by (simp add: u)
  then have "take 3 s = take 3 u1"
    using s by simp
  then have "ToUpper (take 3 s) = take 3 (ToUpper u1)"
    by (simp add: ToUpper_def take_map)
  with u assms show False by simp
qed

lemma no_ref_before_close:
  assumes "\<forall>x\<in>set a. x \<noteq> CHR ''('' \<and> x \<noteq> CHR '')''"
  shows "rmatch refRe (a @ CHR '')'' # t) = []"
proof (rule ccontr)
  assume "rmatch refRe (a @ CHR '')'' # t) \<noteq> []"
  then obtain u1 w v where
    s: "a @ CHR '')'' # t = u1 @ w @ CHR ''('' # v" and u: "ToUpper u1 = ''REFERENCES''"
    and w: "\<forall>x\<in>set w. x \<noteq> CHR ''('' \<and> x \<noteq> CHR '')''"
    by (rule refRe_shape)
  have uw: "\<forall>x\<in>set (u1 @ w). x \<noteq> CHR ''('' \<and> x \<noteq> CHR '')''"
    using upper_keyword_no_paren [OF u] w by auto
  from s have e: "a @ CHR '')'' # t = (u1 @ w) @ CHR ''('' # v" by simp
  have "CHR '')'' = CHR ''(''"
    by (rule conjunct2 [OF split_unique [OF e, of "\<lambda>x. x \<noteq> CHR ''('' \<and> x \<noteq> CHR '')''"]])
       (use assms uw in simp_all)
  then show False by simp
qed

lemma rfind_refRe:
  assumes "fk_text_ok L T R"
  shows "\<exists>m. rfind refRe (fk_text L T R rest) = Some m \<and> m_caps m = [(2, T), (3, R)]"
proof -
  let ?K = "''REFERENCES '' @ T @ ''('' @ R @ '')'' @ rest"
  have L: "\<forall>x\<in>set L. x \<noteq> CHR ''('' \<and> x \<noteq> CHR '')''"
    and T: "T \<noteq> []" "\<forall>x\<in>set T. isWordChar x"
    and R: "R \<noteq> []" "\<forall>x\<in>set R. x \<noteq> CHR '')''"
    using assms by (auto simp: fk_text_ok_def list_all_iff)
  have p: "rfind_from refRe [] (''FOREIGN KEY ('' @ L @ '') '' @ ?K)
           = rfind_from refRe ''FOREIGN KEY ('' (L @ '') '' @ ?K)"
    by (simp add: rfind_from_skip1 no_ref_unless_prefix ToUpper_def toUpperC_def)
  have "rmatch refRe (drop i L @ '') '' @ ?K) = []" if "i < length L" for i
  proof -
    have "\<forall>x\<in>set (drop i L). x \<noteq> CHR ''('' \<and> x \<noteq> CHR '')''"
      using L by (meson in_set_dropD)
    from no_ref_before_close [OF this, of "'' '' @ ?K"] show ?thesis by simp
  qed
  from rfind_from_skip [of L refRe "'') '' @ ?K" "''FOREIGN KEY (''", OF this]
  have l: "rfind_from refRe ''FOREIGN KEY ('' (L @ '') '' @ ?K)
           = rfind_from refRe (''FOREIGN KEY ('' @ L) ('') '' @ ?K)"
    by simp
  have m: "rfind_from refRe (''FOREIGN KEY ('' @ L) ('') '' @ ?K)
           = rfind_from refRe (''FOREIGN KEY ('' @ L @ '') '') ?K"
    by (simp add: rfind_from_skip1 no_ref_unless_prefix ToUpper_def toUpperC_def)
  from rfind_from_found [OF first_refRe [OF T R, of rest], of "''FOREIGN KEY ('' @ L @ '') ''"]
  have f: "\<exists>m. rfind_from refRe (''FOREIGN KEY ('' @ L @ '') '') ?K = Some m
             \<and> m_caps m = [(2, T), (3, R)]"
    by simp
  have "fk_text L T R rest = ''FOREIGN KEY ('' @ L @ '') '' @ ?K"
    by (simp add: fk_text_def)
  with p l m f show ?thesis
    by (simp add: rfind_def)
qed

lemma rfind_localRe:
  assumes "fk_text_ok L T R"
  shows "\<exists>m. rfind localRe (fk_text L T R rest) = Some m \<and> m_caps m = [(1, L)]"
proof -
  have L: "L \<noteq> []" "\<forall>x\<in>set L. x \<noteq> CHR '')''"
    using assms by (auto simp: fk_text_ok_def list_all_iff)
  have "fk_text L T R rest
        = ''FOREIGN KEY ('' @ L @ '')'' @ ('' REFERENCES '' @ T @ ''('' @ R @ '')'' @ rest)"
    by (simp add: fk_text_def)
  with rfind_from_found [OF first_localRe [OF L, of "'' REFERENCES '' @ T @ ''('' @ R @ '')'' @ rest"], of "[]"]
  show ?thesis
    by (simp add: rfind_def)
qed

lemma length_Split_aux: "length (Split_aux sep cur s) = Suc (count_list s sep)"
  by (induction s arbitrary: cur) auto

lemma length_listColumns: "length (listColumns s) = Suc (count_list s (CHR '',''))"
  by (simp add: listColumns_def Split_def length_Split_aux)

lemma parse_well_formed_fk:
  assumes "fk_text_ok L T R"
  shows "\<exists>fk. parseForeignKeyConstraint p (fk_text L T R rest) = Some fk
           \<and> ForeignKey_Columns fk = listColumns L
           \<and> ForeignKey_ReferencedTable fk = T
           \<and> ForeignKey_ReferencedSchema fk = []
           \<and> ForeignKey_ReferencedCols fk = listColumns R
           \<and> (fk_same_arity fk \<longleftrightarrow> count_list L (CHR '','') = count_list R (CHR '',''))"
proof -
  from rfind_localRe [OF assms, of rest] obtain m1 where
    m1: "rfind localRe (fk_text L T R rest) = Some m1" "m_caps m1 = [(1, L)]" by blast
  from rfind_refRe [OF assms, of rest] obtain m2 where
    m2: "rfind refRe (fk_text L T R rest) = Some m2" "m_caps m2 = [(2, T), (3, R)]" by blast
  show ?thesis
    using m1 m2
    by (simp add: parseForeignKeyConstraint_def Let_def group_def fk_same_arity_def
        length_listColumns)
qed

text \<open>
  Claim C8, as amended. The parser reads the local and the referenced columns of a
  foreign key from the text independently and does not make the two lists equally
  long. A \<open>FOREIGN KEY\<close> member without the word \<open>REFERENCES\<close> gives a foreign key
  with an empty referenced table, namespace and column list; when its local column list
  is found, that list is not empty, so the two lengths differ. A member of the form
  \<open>FOREIGN KEY (L) REFERENCES T(R)\<close>, with \<open>L\<close> free of parentheses, \<open>T\<close> a word and \<open>R\<close>
  free of closing parentheses, gives the comma-separated items of \<open>L\<close> and of \<open>R\<close>, so
  the two lists are equally long exactly when \<open>L\<close> and \<open>R\<close> hold equally many commas.
\<close>

theorem C8_foreign_key_lists:
  "(\<not> Contains (ToUpper def) ''REFERENCES'' \<longrightarrow>
      (\<exists>fk. parseForeignKeyConstraint p def = Some fk
         \<and> ForeignKey_ReferencedTable fk = []
         \<and> ForeignKey_ReferencedSchema fk = []
         \<and> ForeignKey_ReferencedCols fk = []
         \<and> (rfind localRe def \<noteq> None \<longrightarrow> ForeignKey_Columns fk \<noteq> [] \<and> \<not> fk_same_arity fk)))
   \<and> (fk_text_ok L T R \<longrightarrow>
      (\<exists>fk. parseForeignKeyConstraint p (fk_text L T R rest) = Some fk
         \<and> ForeignKey_Columns fk = listColumns L
         \<and> ForeignKey_ReferencedTable fk = T
         \<and> ForeignKey_ReferencedSchema fk = []
         \<and> ForeignKey_ReferencedCols fk = listColumns R
         \<and> (fk_same_arity fk \<longleftrightarrow> count_list L (CHR '','') = count_list R (CHR '',''))))"
proof (intro conjI impI)
  assume no_ref: "\<not> Contains (ToUpper def) ''REFERENCES''"
  show "\<exists>fk. parseForeignKeyConstraint p def = Some fk
         \<and> ForeignKey_ReferencedTable fk = []
         \<and> ForeignKey_ReferencedSchema fk = []
         \<and> ForeignKey_ReferencedCols fk = []
         \<and> (rfind localRe def \<noteq> None \<longrightarrow> ForeignKey_Columns fk \<noteq> [] \<and> \<not> fk_same_arity fk)"
  proof (cases "rfind localRe def")
    case None
    then show ?thesis
      using refRe_needs_keyword [OF no_ref]
      by (simp add: parseForeignKeyConstraint_def Let_def)
  next
    case (Some m)
    then show ?thesis
      using refRe_needs_keyword [OF no_ref] listColumns_nonempty [of "group m 1"]
      by (simp add: parseForeignKeyConstraint_def Let_def fk_same_arity_def)
  qed
next
  assume "fk_text_ok L T R"
  then show "\<exists>fk. parseForeignKeyConstraint p (fk_text L T R rest) = Some fk
         \<and> ForeignKey_Columns fk = listColumns L
         \<and> ForeignKey_ReferencedTable fk = T
         \<and> ForeignKey_ReferencedSchema fk = []
         \<and> ForeignKey_ReferencedCols fk = listColumns R
         \<and> (fk_same_arity fk \<longleftrightarrow> count_list L (CHR '','') = count_list R (CHR '',''))"
    by (rule parse_well_formed_fk)
qed

section \<open>The parser on concrete documents\<close>




text \<open>
  Claim C5, on the code. Parsing the statement of the claim gives one table \<open>users\<close>
  with the two columns \<open>id\<close> and \<open>email\<close>, \<open>email\<close> unique and not nullable, and \<open>id\<close>
  flagged as a primary-key column; the primary key of the table itself is left absent.
\<close>

theorem C5_users_table:
  "Parse (NewParser ''postgres'')
     ''CREATE TABLE users (id SERIAL PRIMARY KEY, email VARCHAR(255) NOT NULL UNIQUE)''
   = Inr \<lparr>Tables =
            [\<lparr>Table_Name = ''users'', Table_Schema = [],
              Table_Columns =
                [\<lparr>Column_Name = ''id'', Column_Type = ''SERIAL'',
                  Column_Nullable = False, Column_Default = None,
                  Column_IsPrimaryKey = True, Column_IsUnique = False,
                  Column_IsIdentity = True, Column_Comment = []\<rparr>,
                 \<lparr>Column_Name = ''email'', Column_Type = ''VARCHAR(255)'',
                  Column_Nullable = False, Column_Default = None,
                  Column_IsPrimaryKey = False, Column_IsUnique = True,
                  Column_IsIdentity = False, Column_Comment = []\<rparr>],
              Table_PrimaryKey = None, Table_ForeignKeys = [],
              Table_Indexes = [], Table_Constraints = []\<rparr>],
          Indexes = [], Views = []\<rparr>"
  by code_simp

text \<open>
  Claim C6, on the code. A column named only in a table-level \<open>PRIMARY KEY (...)\<close>
  member keeps the nullable flag it had: \<open>id\<close> below is in the primary key of the table
  and is still nullable.
\<close>

theorem C6_table_level_primary_key:
  "Parse (NewParser ''postgres'') ''CREATE TABLE t (id INT, PRIMARY KEY (id))''
   = Inr \<lparr>Tables =
            [\<lparr>Table_Name = ''t'', Table_Schema = [],
              Table_Columns =
                [\<lparr>Column_Name = ''id'', Column_Type = ''INT'',
                  Column_Nullable = True, Column_Default = None,
                  Column_IsPrimaryKey = False, Column_IsUnique = False,
                  Column_IsIdentity = False, Column_Comment = []\<rparr>],
              Table_PrimaryKey = Some \<lparr>PrimaryKey_Name = [], PrimaryKey_Columns = [''id'']\<rparr>,
              Table_ForeignKeys = [], Table_Indexes = [], Table_Constraints = []\<rparr>],
          Indexes = [], Views = []\<rparr>"
  by code_simp

theorem C8_foreign_key_lists_witness:
  "\<not> Contains (ToUpper ''FOREIGN KEY (a, b)'') ''REFERENCES''
   \<and> rfind localRe ''FOREIGN KEY (a, b)'' \<noteq> None
   \<and> fk_text_ok ''a, b'' ''p'' ''x, y''
   \<and> (\<exists>fk. parseForeignKeyConstraint (NewParser ''postgres'') ''FOREIGN KEY (a, b)'' = Some fk
          \<and> ForeignKey_ReferencedTable fk = []
          \<and> ForeignKey_ReferencedSchema fk = []
          \<and> ForeignKey_ReferencedCols fk = []
          \<and> ForeignKey_Columns fk \<noteq> []
          \<and> \<not> fk_same_arity fk)
   \<and> (\<exists>fk. parseForeignKeyConstraint (NewParser ''postgres'')
               ''FOREIGN KEY (a, b) REFERENCES p(x, y) ON DELETE CASCADE'' = Some fk
          \<and> ForeignKey_Columns fk = [''a'', ''b'']
          \<and> ForeignKey_ReferencedTable fk = ''p''
          \<and> ForeignKey_ReferencedCols fk = [''x'', ''y'']
          \<and> fk_same_arity fk)"
proof -
  have h1: "\<not> Contains (ToUpper ''FOREIGN KEY (a, b)'') ''REFERENCES''"
    by code_simp
  have h2: "rfind localRe ''FOREIGN KEY (a, b)'' \<noteq> None"
    by code_simp
  have h3: "fk_text_ok ''a, b'' ''p'' ''x, y''"
    by code_simp
  have t: "fk_text ''a, b'' ''p'' ''x, y'' '' ON DELETE CASCADE''
           = ''FOREIGN KEY (a, b) REFERENCES p(x, y) ON DELETE CASCADE''"
    by (simp add: fk_text_def)
  have l: "listColumns ''a, b'' = [''a'', ''b'']" "listColumns ''x, y'' = [''x'', ''y'']"
    by code_simp+
  have c: "count_list ''a, b'' (CHR '','') = count_list ''x, y'' (CHR '','')"
    by simp
  note C8 = C8_foreign_key_lists [of "''FOREIGN KEY (a, b)''" "NewParser ''postgres''"
      "''a, b''" "''p''" "''x, y''" "'' ON DELETE CASCADE''"]
  from C8 h1 h2 have first:
    "\<exists>fk. parseForeignKeyConstraint (NewParser ''postgres'') ''FOREIGN KEY (a, b)'' = Some fk
          \<and> ForeignKey_ReferencedTable fk = []
          \<and> ForeignKey_ReferencedSchema fk = []
          \<and> ForeignKey_ReferencedCols fk = []
          \<and> ForeignKey_Columns fk \<noteq> []
          \<and> \<not> fk_same_arity fk"
    by blast
  from C8 h3 have second:
    "\<exists>fk. parseForeignKeyConstraint (NewParser ''postgres'')
               ''FOREIGN KEY (a, b) REFERENCES p(x, y) ON DELETE CASCADE'' = Some fk
          \<and> ForeignKey_Columns fk = [''a'', ''b'']
          \<and> ForeignKey_ReferencedTable fk = ''p''
          \<and> ForeignKey_ReferencedCols fk = [''x'', ''y'']
          \<and> fk_same_arity fk"
    unfolding t l using c by blast
  from h1 h2 h3 first second show ?thesis
    by (intro conjI)
qed

text \<open>
  Claim C8 as stated fails: a foreign key over two local columns that references one
  column is parsed with lists of lengths two and one.
\<close>

theorem C8_arity_counterexample:
  "Parse (NewParser ''postgres'')
     ''CREATE TABLE c (a INT, b INT, FOREIGN KEY (a, b) REFERENCES p(x))''
   = Inr \<lparr>Tables =
            [\<lparr>Table_Name = ''c'', Table_Schema = [],
              Table_Columns =
                [\<lparr>Column_Name = ''a'', Column_Type = ''INT'',
                  Column_Nullable = True, Column_Default = None,
                  Column_IsPrimaryKey = False, Column_IsUnique = False,
                  Column_IsIdentity = False, Column_Comment = []\<rparr>,
                 \<lparr>Column_Name = ''b'', Column_Type = ''INT'',
                  Column_Nullable = True, Column_Default = None,
                  Column_IsPrimaryKey = False, Column_IsUnique = False,
                  Column_IsIdentity = False, Column_Comment = []\<rparr>],
              Table_PrimaryKey = None,
              Table_ForeignKeys =
                [\<lparr>ForeignKey_Name = [], ForeignKey_Columns = [''a'', ''b''],
                  ForeignKey_ReferencedTable = ''p'', ForeignKey_ReferencedSchema = [],
                  ForeignKey_ReferencedCols = [''x''],
                  ForeignKey_OnDelete = [], ForeignKey_OnUpdate = []\<rparr>],
              Table_Indexes = [], Table_Constraints = []\<rparr>],
          Indexes = [], Views = []\<rparr>
   \<and> \<not> schema_fks_same_arity
         \<lparr>Tables =
            [\<lparr>Table_Name = ''c'', Table_Schema = [],
              Table_Columns =
                [\<lparr>Column_Name = ''a'', Column_Type = ''INT'',
                  Column_Nullable = True, Column_Default = None,
                  Column_IsPrimaryKey = False, Column_IsUnique = False,
                  Column_IsIdentity = False, Column_Comment = []\<rparr>,
                 \<lparr>Column_Name = ''b'', Column_Type = ''INT'',
                  Column_Nullable = True, Column_Default = None,
                  Column_IsPrimaryKey = False, Column_IsUnique = False,
                  Column_IsIdentity = False, Column_Comment = []\<rparr>],
              Table_PrimaryKey = None,
              Table_ForeignKeys =
                [\<lparr>ForeignKey_Name = [], ForeignKey_Columns = [''a'', ''b''],
                  ForeignKey_ReferencedTable = ''p'', ForeignKey_ReferencedSchema = [],
                  ForeignKey_ReferencedCols = [''x''],
                  ForeignKey_OnDelete = [], ForeignKey_OnUpdate = []\<rparr>],
              Table_Indexes = [], Table_Constraints = []\<rparr>],
          Indexes = [], Views = []\<rparr>"
  by code_simp

text \<open>
  Beside the claims: a \<open>CREATE TABLE\<close> statement whose last closing parenthesis stands
  before its first opening one makes the slice of \<open>parseCreateTable\<close> panic, and the
  whole parse with it.
\<close>

lemma Parse_panics_on_reversed_parentheses:
  "Parse (NewParser ''postgres'') ''CREATE TABLE t ) ('' = Inl (Panic ''slice bounds out of range'')"
  by code_simp

text \<open>
  The column path: a column definition is not nullable exactly when its text contains
  \<open>NOT NULL\<close> or \<open>PRIMARY KEY\<close>.
\<close>

lemma parseColumnDef_nullable:
  assumes "parseColumnDef p def = Some col"
  shows "Column_Nullable col
         \<longleftrightarrow> \<not> (Contains (ToUpper def) ''NOT NULL'' \<or> Contains (ToUpper def) ''PRIMARY KEY'')"
  using assms
  by (auto simp: parseColumnDef_def Let_def split: list.splits option.splits if_splits)

end
